theory Spec2Isabelle
  imports Main "HOL-Library.Word"
begin

unbundle bit_operations_syntax

section \<open>Python values, errors and the standard-library calls the code relies on\<close>

text \<open>
  The development embeds \<^verbatim>\<open>library/py/tde/recfmt.py\<close> (segments, the
  record parsers and builders) and the merge driver \<^verbatim>\<open>host/bin/mergehex.py\<close>.
  Python integers are unbounded and are modelled by \<open>int\<close>; a \<^verbatim>\<open>bytes\<close>
  value is a list of 8-bit words; a \<^verbatim>\<open>str\<close> is a \<open>string\<close>. Every
  exception the code can raise is a value of the datatype \<open>error\<close>, one constructor per
  raise site (the class is in the constructor's name, the message is dropped), and a call
  that can raise returns \<open>error + 'a\<close>.
\<close>

type_synonym byte = "8 word"

datatype error =
    ValueError_segment_gap        \<comment> \<open>\<^verbatim>\<open>ValueError("Invalid segment gap")\<close>\<close>
  | ValueError_negative_seek      \<comment> \<open>\<^verbatim>\<open>BytesIO.seek\<close> with a negative position\<close>
  | ValueError_int                \<comment> \<open>\<^verbatim>\<open>int()\<close>: invalid literal\<close>
  | ValueError_non_ascii          \<comment> \<open>\<^verbatim>\<open>unhexlify\<close> of a non-ASCII \<^verbatim>\<open>str\<close>\<close>
  | binascii_Error                \<comment> \<open>\<^verbatim>\<open>unhexlify\<close>: odd length or non-hexadecimal digit\<close>
  | RecordError_out_of_range      \<comment> \<open>"Address out of range"\<close>
  | RecordError_invalid_address   \<comment> \<open>"Invalid address in file"\<close>
  | SRecError_header              \<comment> \<open>"Invalid SREC header"\<close>
  | SRecError_unsupported         \<comment> \<open>"Unsupported SREC record"\<close>
  | SRecError_size                \<comment> \<open>"Expected %d bytes, got %d"\<close>
  | SRecError_checksum            \<comment> \<open>"Invalid checksum"\<close>
  | IHexError_header              \<comment> \<open>"Invalid IHEX header"\<close>
  | IHexError_unsupported int     \<comment> \<open>"Unsupported IHEX record: %d"\<close>
  | IHexError_size                \<comment> \<open>"Expected %d bytes, got %d"\<close>
  | IHexError_checksum            \<comment> \<open>"Invalid checksum"\<close>
  | IHexError_line                \<comment> \<open>"Invalid line @ %d in HEX file"\<close>
  | IHexError_segment_address     \<comment> \<open>"Invalid segment address"\<close>
  | IHexError_linear_address      \<comment> \<open>"Invalid linear address"\<close>
  | IHexError_start_address       \<comment> \<open>"Invalid start address"\<close>
  | TypeError                     \<comment> \<open>\<^verbatim>\<open>str + bytes\<close>, \<^verbatim>\<open>ord(int)\<close>\<close>
  | NameError                     \<comment> \<open>a global name that the module never binds\<close>
  | UnboundLocalError             \<comment> \<open>a local variable read before assignment\<close>
  | struct_error                  \<comment> \<open>\<^verbatim>\<open>struct.pack\<close>: number out of range\<close>
  | NotImplementedError           \<comment> \<open>an abstract method of \<^verbatim>\<open>RecordBuilder\<close>\<close>
  | RuntimeError_start_address    \<comment> \<open>"Several start up address are defined"\<close>
  | RuntimeError_segment_override \<comment> \<open>"Segment override"\<close>

definition andThen :: "error + 'a \<Rightarrow> ('a \<Rightarrow> error + 'b) \<Rightarrow> error + 'b" where
  "andThen m f = (case m of Inl e \<Rightarrow> Inl e | Inr x \<Rightarrow> f x)"

subsection \<open>\<^verbatim>\<open>io.BytesIO\<close>\<close>

text \<open>
  A \<^verbatim>\<open>BytesIO\<close> is its buffer and its stream position. \<^verbatim>\<open>seek(pos, SEEK_SET)\<close>
  raises \<^verbatim>\<open>ValueError\<close> on a negative position and may move past the end.
  \<^verbatim>\<open>write\<close> of no bytes changes nothing; otherwise it grows the buffer up to the end
  of the written range, zero-fills what lies between the old end and the position, copies
  the bytes at the position (over what was there) and leaves the position after them.
\<close>

record BytesIO =
  buf :: "byte list"
  pos :: nat

definition BytesIO_new :: BytesIO where
  "BytesIO_new = \<lparr>buf = [], pos = 0\<rparr>"

definition BytesIO_seek :: "BytesIO \<Rightarrow> int \<Rightarrow> error + BytesIO" where
  "BytesIO_seek b p = (if p < 0 then Inl ValueError_negative_seek else Inr (b\<lparr>pos := nat p\<rparr>))"

fun memcpy :: "byte list \<Rightarrow> nat \<Rightarrow> byte list \<Rightarrow> byte list" where
  "memcpy out p [] = out"
| "memcpy out p (x # xs) = memcpy (out[p := x]) (Suc p) xs"

definition BytesIO_write :: "BytesIO \<Rightarrow> byte list \<Rightarrow> BytesIO" where
  "BytesIO_write b d =
     (if d = [] then b
      else let endpos = pos b + length d;
               resized = (if endpos > length (buf b)
                          then buf b @ replicate (endpos - length (buf b)) 0 else buf b)
           in \<lparr>buf = memcpy resized (pos b) d, pos = endpos\<rparr>)"

definition BytesIO_getvalue :: "BytesIO \<Rightarrow> byte list" where
  "BytesIO_getvalue b = buf b"

section \<open>\<^verbatim>\<open>RecordSegment\<close>\<close>

text \<open>
  The fields are the attributes \<^verbatim>\<open>_baseaddr\<close>, \<^verbatim>\<open>_size\<close> and
  \<^verbatim>\<open>_buffer\<close>; \<open>absaddr\<close> and \<open>data\<close> are the properties of the same names.
  \<^verbatim>\<open>_size\<close> is kept by the class itself, apart from the buffer's length.
\<close>

record RecordSegment =
  baseaddr :: int
  seg_size :: int
  buffer :: BytesIO

definition RecordSegment_init :: "int \<Rightarrow> RecordSegment" where
  "RecordSegment_init base = \<lparr>baseaddr = base, seg_size = 0, buffer = BytesIO_new\<rparr>"

definition absaddr :: "RecordSegment \<Rightarrow> int" where
  "absaddr s = baseaddr s + seg_size s"

definition data :: "RecordSegment \<Rightarrow> byte list" where
  "data s = BytesIO_getvalue (buffer s)"

definition write_with_size ::
  "RecordSegment \<Rightarrow> byte list \<Rightarrow> int \<Rightarrow> int option \<Rightarrow> error + RecordSegment" where
  "write_with_size s d sz offset =
     (case offset of
        None \<Rightarrow> Inr (s\<lparr>buffer := BytesIO_write (buffer s) d, seg_size := seg_size s + sz\<rparr>)
      | Some off \<Rightarrow>
          if off - baseaddr s \<noteq> seg_size s
          then let off' = off - baseaddr s in
               andThen (BytesIO_seek (buffer s) off')
                 (\<lambda>b. Inr (s\<lparr>buffer := BytesIO_write b d,
                            seg_size := seg_size s + (sz + (off' - seg_size s))\<rparr>))
          else Inr (s\<lparr>buffer := BytesIO_write (buffer s) d, seg_size := seg_size s + sz\<rparr>))"

definition RecordSegment_write ::
  "RecordSegment \<Rightarrow> byte list \<Rightarrow> int option \<Rightarrow> error + RecordSegment" where
  "RecordSegment_write s d offset = write_with_size s d (int (length d)) offset"

section \<open>Strings: \<^verbatim>\<open>str.strip\<close>, slices, \<^verbatim>\<open>int()\<close>, \<^verbatim>\<open>binascii\<close> and \<^verbatim>\<open>%\<close> formatting\<close>

text \<open>
  These follow CPython 3. A \<open>char\<close> is a code point below 256. \<^verbatim>\<open>str.strip()\<close>
  removes the code points 9 to 13, 28 to 32, 133 and 160 from both ends. A slice clamps its
  bounds to the sequence and counts a negative bound from the end.
\<close>

definition isspace :: "char \<Rightarrow> bool" where
  "isspace c = (let n = (of_char c :: nat) in (9 \<le> n \<and> n \<le> 13) \<or> (28 \<le> n \<and> n \<le> 32) \<or> n = 133 \<or> n = 160)"

definition strip :: "string \<Rightarrow> string" where
  "strip s = rev (dropWhile isspace (rev (dropWhile isspace s)))"

definition clamp_index :: "nat \<Rightarrow> int \<Rightarrow> nat" where
  "clamp_index n i = (if i < 0 then nat (max 0 (int n + i)) else min n (nat i))"

definition slice :: "'a list \<Rightarrow> int \<Rightarrow> int \<Rightarrow> 'a list" where
  \<comment> \<open>\<^verbatim>\<open>xs[a:b]\<close>\<close>
  "slice xs a b = (let lo = clamp_index (length xs) a; hi = clamp_index (length xs) b
                   in take (hi - lo) (drop lo xs))"

definition slice_from :: "'a list \<Rightarrow> int \<Rightarrow> 'a list" where
  \<comment> \<open>\<^verbatim>\<open>xs[a:]\<close>\<close>
  "slice_from xs a = drop (clamp_index (length xs) a) xs"

definition slice_to :: "'a list \<Rightarrow> int \<Rightarrow> 'a list" where
  \<comment> \<open>\<^verbatim>\<open>xs[:b]\<close>\<close>
  "slice_to xs b = take (clamp_index (length xs) b) xs"

text \<open>
  \<^verbatim>\<open>int(s, base)\<close> for base 10 and 16: the code points 133 and 160 count as blanks;
  blanks (9 to 13 and 32) are skipped at both ends; one sign may come first; in base 16 a
  prefix \<^verbatim>\<open>0x\<close> or \<^verbatim>\<open>0X\<close> is skipped, and one underscore after it; then come
  digits, with single underscores between them only. Everything else is a
  \<^verbatim>\<open>ValueError\<close>.
\<close>

definition digit_value :: "char \<Rightarrow> nat option" where
  "digit_value c =
     (let n = (of_char c :: nat) in
      if 48 \<le> n \<and> n \<le> 57 then Some (n - 48)
      else if 97 \<le> n \<and> n \<le> 122 then Some (n - 87)
      else if 65 \<le> n \<and> n \<le> 90 then Some (n - 55)
      else None)"

definition Py_ISSPACE :: "char \<Rightarrow> bool" where
  "Py_ISSPACE c = (let n = (of_char c :: nat) in (9 \<le> n \<and> n \<le> 13) \<or> n = 32)"

definition is_digit :: "nat \<Rightarrow> char \<Rightarrow> bool" where
  "is_digit base c = (case digit_value c of Some v \<Rightarrow> v < base | None \<Rightarrow> False)"

fun scan_digits :: "nat \<Rightarrow> bool \<Rightarrow> nat \<Rightarrow> string \<Rightarrow> (nat \<times> string) option" where
  "scan_digits base prev_underscore acc [] = (if prev_underscore then None else Some (acc, []))"
| "scan_digits base prev_underscore acc (c # cs) =
     (if c = CHR ''_'' then (if prev_underscore then None else scan_digits base True acc cs)
      else if is_digit base c
      then scan_digits base False (acc * base + the (digit_value c)) cs
      else if prev_underscore then None else Some (acc, c # cs))"

definition py_int :: "nat \<Rightarrow> string \<Rightarrow> error + int" where
  "py_int base s =
     (let s0 = map (\<lambda>c. if (of_char c :: nat) = 133 \<or> (of_char c :: nat) = 160 then CHR '' '' else c) s;
          s1 = dropWhile Py_ISSPACE s0;
          negative = (take 1 s1 = ''-'');
          s2 = (if take 1 s1 = ''+'' \<or> take 1 s1 = ''-'' then drop 1 s1 else s1);
          s3 = (if base = 16 \<and> (take 2 s2 = ''0x'' \<or> take 2 s2 = ''0X'')
                then (if take 1 (drop 2 s2) = ''_'' then drop 3 s2 else drop 2 s2)
                else s2)
      in if take 1 s3 = ''_'' then Inl ValueError_int
         else case scan_digits base False 0 s3 of
                None \<Rightarrow> Inl ValueError_int
              | Some (v, rest) \<Rightarrow>
                  if length rest = length s3 then Inl ValueError_int
                  else if list_all Py_ISSPACE rest
                  then Inr (if negative then - int v else int v)
                  else Inl ValueError_int)"

text \<open>
  \<^verbatim>\<open>binascii.unhexlify\<close> of a \<^verbatim>\<open>str\<close>: a \<^verbatim>\<open>ValueError\<close> for a non-ASCII
  string, \<^verbatim>\<open>binascii.Error\<close> for an odd length or a character that is no hexadecimal
  digit (blanks included). \<^verbatim>\<open>binascii.hexlify\<close> returns \<^verbatim>\<open>bytes\<close>: the ASCII
  codes of lower-case digits; \<^verbatim>\<open>.decode()\<close> makes them a \<^verbatim>\<open>str\<close>.
\<close>

fun unhex_pairs :: "string \<Rightarrow> byte list option" where
  "unhex_pairs [] = Some []"
| "unhex_pairs [c] = None"
| "unhex_pairs (a # b # cs) =
     (if is_digit 16 a \<and> is_digit 16 b
      then map_option ((#) (of_nat (16 * the (digit_value a) + the (digit_value b)))) (unhex_pairs cs)
      else None)"

definition unhexlify :: "string \<Rightarrow> error + byte list" where
  "unhexlify s =
     (if \<not> list_all (\<lambda>c. (of_char c :: nat) < 128) s then Inl ValueError_non_ascii
      else if odd (length s) then Inl binascii_Error
      else case unhex_pairs s of None \<Rightarrow> Inl binascii_Error | Some bs \<Rightarrow> Inr bs)"

definition hexdigit :: "nat \<Rightarrow> char" where
  "hexdigit n = ''0123456789abcdef'' ! (n mod 16)"

definition hexlify :: "byte list \<Rightarrow> byte list" where
  "hexlify bs = concat (map (\<lambda>b. [of_char (hexdigit (unat b div 16)), of_char (hexdigit (unat b mod 16))]) bs)"

definition decode :: "byte list \<Rightarrow> string" where
  "decode bs = map (\<lambda>b. char_of (unat b)) bs"

text \<open>
  \<^verbatim>\<open>'%0Nx' % n\<close>: the digits of \<open>n\<close> in base 16, a minus sign first when \<open>n\<close> is
  negative, zero-filled to \<open>N\<close> characters; never truncated. \<^verbatim>\<open>%X\<close> gives upper-case
  digits. \<^verbatim>\<open>str.upper()\<close> is needed on ASCII text only.
\<close>

fun hex_digits :: "nat \<Rightarrow> string" where
  "hex_digits n = (if n < 16 then [hexdigit n] else hex_digits (n div 16) @ [hexdigit (n mod 16)])"

declare hex_digits.simps [simp del]

definition format_x :: "nat \<Rightarrow> int \<Rightarrow> string" where
  "format_x width n =
     (if n < 0
      then CHR ''-'' # replicate (width - 1 - length (hex_digits (nat (- n)))) CHR ''0'' @ hex_digits (nat (- n))
      else replicate (width - length (hex_digits (nat n))) CHR ''0'' @ hex_digits (nat n))"

definition upper_char :: "char \<Rightarrow> char" where
  "upper_char c = (let n = (of_char c :: nat) in if 97 \<le> n \<and> n \<le> 122 then char_of (n - 32) else c)"

definition upper :: "string \<Rightarrow> string" where
  "upper s = map upper_char s"

definition format_X :: "nat \<Rightarrow> int \<Rightarrow> string" where
  "format_X width n = upper (format_x width n)"

section \<open>\<^verbatim>\<open>RecordParser\<close>\<close>

text \<open>
  The parser object: the source stream \<open>src\<close> is the list of the lines not yet read (without
  their line ends), the other fields are the attributes of the same names. The attributes
  \<^verbatim>\<open>_verbose\<close> and \<^verbatim>\<open>_bytes\<close> only drive a progress display and are left out.
\<close>

datatype rectype = INFO | DATA | EXECUTE | EOF

type_synonym chunk = "rectype \<times> int \<times> byte list"

record RecordParser =
  src :: "string list"
  offset :: int
  min_addr :: int
  max_addr :: int
  exec_addr :: "int option"
  segments :: "RecordSegment list"
  info :: "RecordSegment option"
  gap :: int
  seg :: "RecordSegment option"
  verify :: bool

definition RecordParser_init ::
  "string list \<Rightarrow> int \<Rightarrow> int \<Rightarrow> int \<Rightarrow> int \<Rightarrow> bool \<Rightarrow> error + RecordParser" where
  "RecordParser_init source offs lo hi segment_gap vfy =
     (if segment_gap < 1 then Inl ValueError_segment_gap
      else Inr \<lparr>src = source, offset = offs, min_addr = lo, max_addr = hi, exec_addr = None,
                segments = [], info = None, gap = segment_gap, seg = None, verify = vfy\<rparr>)"

definition get_data_segments :: "'a RecordParser_scheme \<Rightarrow> RecordSegment list" where
  "get_data_segments p = segments p"

definition getexec :: "'a RecordParser_scheme \<Rightarrow> int option" where
  "getexec p = exec_addr p"

definition verify_address :: "'a RecordParser_scheme \<Rightarrow> int \<Rightarrow> error + unit" where
  "verify_address p address =
     (if address < min_addr p \<or> address > max_addr p then Inl RecordError_out_of_range
      else if address < offset p then Inl RecordError_invalid_address
      else Inr ())"

definition store_segment :: "'a RecordParser_scheme \<Rightarrow> 'a RecordParser_scheme" where
  "store_segment p =
     (case seg p of
        None \<Rightarrow> p\<lparr>seg := None\<rparr>
      | Some s \<Rightarrow> if seg_size s \<noteq> 0 then p\<lparr>segments := segments p @ [s], seg := None\<rparr>
                  else p\<lparr>seg := None\<rparr>)"

text \<open>
  The body of the loop of \<^verbatim>\<open>RecordParser.parse\<close>, for one record handed over by the
  iterator. The iterators only yield the four record types, so the final
  \<^verbatim>\<open>RuntimeError("Internal error")\<close> has no branch.
\<close>

definition parse_record :: "'a RecordParser_scheme \<Rightarrow> chunk \<Rightarrow> error + 'a RecordParser_scheme" where
  "parse_record p c =
     (case c of (rtype, address, val) \<Rightarrow>
        (case rtype of
           DATA \<Rightarrow>
             (let addr = address - offset p;
                  p1 = (case seg p of
                          Some s \<Rightarrow> if \<bar>addr - absaddr s\<bar> \<ge> gap p then store_segment p else p
                        | None \<Rightarrow> p);
                  s0 = (case seg p1 of None \<Rightarrow> RecordSegment_init addr | Some s \<Rightarrow> s)
              in andThen (RecordSegment_write s0 val (Some addr)) (\<lambda>s'. Inr (p1\<lparr>seg := Some s'\<rparr>)))
         | EXECUTE \<Rightarrow> Inr (p\<lparr>exec_addr := Some address\<rparr>)
         | INFO \<Rightarrow>
             (let i0 = (case info p of None \<Rightarrow> RecordSegment_init address | Some i \<Rightarrow> i)
              in andThen (RecordSegment_write i0 val (Some address)) (\<lambda>i'. Inr (p\<lparr>info := Some i'\<rparr>)))
         | EOF \<Rightarrow> Inr p))"

fun parse_loop :: "'a RecordParser_scheme \<Rightarrow> chunk list \<Rightarrow> error + 'a RecordParser_scheme" where
  "parse_loop p [] = Inr p"
| "parse_loop p (c # cs) = andThen (parse_record p c) (\<lambda>p'. parse_loop p' cs)"

text \<open>
  \<^verbatim>\<open>RecordParser.parse\<close> runs over what the iterator yields: the records it yields in
  order and, when it raises instead of ending, the error it raises after them. The loop
  handles each record before the iterator goes on, so an error of the loop comes first.
\<close>

definition RecordParser_parse ::
  "'a RecordParser_scheme \<Rightarrow> chunk list \<times> error option \<Rightarrow> error + 'a RecordParser_scheme" where
  "RecordParser_parse p it =
     andThen (parse_loop p (fst it))
       (\<lambda>p'. case snd it of Some e \<Rightarrow> Inl e | None \<Rightarrow> Inr (store_segment p'))"

subsection \<open>\<^verbatim>\<open>SRecParser\<close>\<close>

text \<open>
  One line of \<^verbatim>\<open>SRecParser._get_next_chunk\<close>: \<open>Inr None\<close> is \<^verbatim>\<open>continue\<close>,
  \<open>Inr (Some c)\<close> is \<^verbatim>\<open>yield c\<close>. A \<^verbatim>\<open>RecordError\<close> is raised again with the line
  added to its message and its class kept; \<^verbatim>\<open>unhexlify\<close> raises
  \<^verbatim>\<open>binascii.Error\<close>, which the \<^verbatim>\<open>except TypeError\<close> does not catch.
\<close>

definition SRecParser_line :: "'a RecordParser_scheme \<Rightarrow> string \<Rightarrow> error + chunk option" where
  "SRecParser_line p l =
     (let line = strip l in
      if length line < 5 then Inr None
      else if line ! 0 \<noteq> CHR ''S'' then Inl SRecError_header
      else
        andThen (py_int 10 [line ! 1]) (\<lambda>record.
        andThen
          (if record = 1 then andThen (py_int 16 (slice line 4 8)) (\<lambda>a. Inr (3, a, DATA))
           else if record = 2 then andThen (py_int 16 (slice line 4 10)) (\<lambda>a. Inr (4, a, DATA))
           else if record = 3 then andThen (py_int 16 (slice line 4 12)) (\<lambda>a. Inr (5, a, DATA))
           else if record = 7 then andThen (py_int 16 (slice line 4 12)) (\<lambda>a. Inr (5, a, EXECUTE))
           else if record = 8 then andThen (py_int 16 (slice line 4 10)) (\<lambda>a. Inr (4, a, EXECUTE))
           else if record = 9 then andThen (py_int 16 (slice line 4 8)) (\<lambda>a. Inr (3, a, EXECUTE))
           else if record = 0 then andThen (py_int 16 (slice line 4 8)) (\<lambda>a. Inr (3, a, INFO))
           else Inl SRecError_unsupported)
          (\<lambda>(addrend, address, rtype).
        andThen (unhexlify (slice line 2 (- 2))) (\<lambda>bytes.
        andThen (py_int 16 (slice line 2 4)) (\<lambda>size.
        if size \<noteq> int (length bytes) then Inl SRecError_size
        else
          andThen
            (if verify p
             then andThen (py_int 16 (slice_from line (- 2)))
                    (\<lambda>rsum. if rsum \<noteq> (sum_list (map uint bytes) AND 0xff) XOR 0xff
                            then Inl SRecError_checksum else Inr ())
             else Inr ())
            (\<lambda>_.
          andThen (if verify p \<and> record \<noteq> 0 then verify_address p address else Inr ())
            (\<lambda>_. Inr (Some (rtype, address, slice_from bytes addrend)))))))))"

fun SRecParser_get_next_chunk ::
  "'a RecordParser_scheme \<Rightarrow> string list \<Rightarrow> chunk list \<times> error option" where
  "SRecParser_get_next_chunk p [] = ([], None)"
| "SRecParser_get_next_chunk p (l # ls) =
     (case SRecParser_line p l of
        Inl e \<Rightarrow> ([], Some e)
      | Inr None \<Rightarrow> SRecParser_get_next_chunk p ls
      | Inr (Some c) \<Rightarrow>
          (case SRecParser_get_next_chunk p ls of (cs, e) \<Rightarrow> (c # cs, e)))"

definition SRecParser_parse :: "RecordParser \<Rightarrow> error + RecordParser" where
  "SRecParser_parse p =
     andThen (RecordParser_parse p (SRecParser_get_next_chunk p (src p)))
       (\<lambda>p'. Inr (p'\<lparr>src := []\<rparr>))"

subsection \<open>\<^verbatim>\<open>IHexParser\<close>\<close>

text \<open>
  \<^verbatim>\<open>IHexParser\<close> and \<^verbatim>\<open>IHexFastParser\<close> add the attribute
  \<^verbatim>\<open>_offset_addr\<close> to the parser. One line of \<^verbatim>\<open>IHexParser._get_next_chunk\<close>
  returns what it yields, if anything, and the new \<^verbatim>\<open>_offset_addr\<close>. The record
  type is read by \<^verbatim>\<open>int(line[7:9])\<close>, in base 10. The branches are tried in the
  order 0, 1, 2, 4, 3; the branches 2 and 4 \<^verbatim>\<open>continue\<close>, before the size and the
  checksum are looked at.
\<close>

record IHexParser = RecordParser +
  offset_addr :: int

definition IHexParser_init ::
  "string list \<Rightarrow> int \<Rightarrow> int \<Rightarrow> int \<Rightarrow> int \<Rightarrow> bool \<Rightarrow> error + IHexParser" where
  "IHexParser_init source offs lo hi segment_gap vfy =
     andThen (RecordParser_init source offs lo hi segment_gap vfy)
       (\<lambda>p. Inr (RecordParser.extend p (IHexParser.fields 0)))"

definition IHexParser_line ::
  "'a RecordParser_scheme \<Rightarrow> int \<Rightarrow> string \<Rightarrow> error + (chunk option \<times> int)" where
  "IHexParser_line p oa l =
     (let line = strip l in
      if length line < 5 then Inr (None, oa)
      else if line ! 0 \<noteq> CHR '':'' then Inl IHexError_header
      else
        andThen (py_int 16 (slice line 1 3)) (\<lambda>size.
        andThen (py_int 16 (slice line 3 7)) (\<lambda>address.
        andThen (py_int 10 (slice line 7 9)) (\<lambda>record.
        andThen
          (if record = 0 then Inr (Some DATA, address, oa)
           else if record = 1 then Inr (Some EOF, address, oa)
           else if record = 2
           then andThen (py_int 16 (slice line 9 (- 2)))
                  (\<lambda>v. Inr (None, address, (oa AND NOT (push_bit 20 1 - 1)) OR push_bit 4 v))
           else if record = 4
           then andThen (py_int 16 (slice line 9 (- 2)))
                  (\<lambda>v. Inr (None, address, push_bit 16 v))
           else if record = 3
           then andThen (py_int 16 (slice line 9 13)) (\<lambda>cs.
                andThen (py_int 16 (slice line 13 (- 2))) (\<lambda>ip.
                Inr (Some EXECUTE, push_bit 4 cs + ip, oa)))
           else Inl (IHexError_unsupported record))
          (\<lambda>(branch, address, oa').
             case branch of
               None \<Rightarrow> Inr (None, oa')
             | Some rtype \<Rightarrow>
                 andThen (unhexlify (slice line 9 (- 2))) (\<lambda>bytes.
                 if size \<noteq> int (length bytes) then Inl IHexError_size
                 else
                   andThen
                     (if verify p
                      then andThen (unhexlify (slice line 1 (- 2))) (\<lambda>bs.
                           andThen (py_int 16 (slice_from line (- 2))) (\<lambda>rsum.
                           if rsum \<noteq> (- sum_list (map uint bs)) AND 0xff
                           then Inl IHexError_checksum else Inr ()))
                      else Inr ())
                     (\<lambda>_.
                   let address' = (if rtype = DATA then address + oa' else address) in
                   andThen (if verify p \<and> record \<noteq> 0 then verify_address p address' else Inr ())
                     (\<lambda>_. Inr (Some (rtype, address', bytes), oa')))))))))"

fun IHexParser_get_next_chunk ::
  "'a RecordParser_scheme \<Rightarrow> int \<Rightarrow> string list \<Rightarrow> (chunk list \<times> error option) \<times> int" where
  "IHexParser_get_next_chunk p oa [] = (([], None), oa)"
| "IHexParser_get_next_chunk p oa (l # ls) =
     (case IHexParser_line p oa l of
        Inl e \<Rightarrow> (([], Some e), oa)
      | Inr (None, oa') \<Rightarrow> IHexParser_get_next_chunk p oa' ls
      | Inr (Some c, oa') \<Rightarrow>
          (case IHexParser_get_next_chunk p oa' ls of ((cs, e), oa'') \<Rightarrow> ((c # cs, e), oa'')))"

definition IHexParser_parse :: "IHexParser \<Rightarrow> error + IHexParser" where
  "IHexParser_parse p =
     (case IHexParser_get_next_chunk p (offset_addr p) (src p) of
        (it, oa) \<Rightarrow>
          andThen (RecordParser_parse p it) (\<lambda>p'. Inr (p'\<lparr>src := [], offset_addr := oa\<rparr>)))"

subsection \<open>\<^verbatim>\<open>IHexFastParser\<close>\<close>

text \<open>
  \<^verbatim>\<open>HEXCRE\<close> is \<^verbatim>\<open>(?aim)^:((?:[0-9A-F][0-9A-F]){5,})$\<close>, searched in the whole
  text: a match is a whole line that is a colon and at least five pairs of hexadecimal
  digits in either case; every other line is passed over in silence. So
  \<^verbatim>\<open>finditer\<close> over \<^verbatim>\<open>self._src.read()\<close> gives the lines that match, as they
  stand (no \<^verbatim>\<open>strip\<close>). The module never imports \<^verbatim>\<open>sys\<close>, which the branch of
  the end-of-file record names when the address is not 0.
\<close>

definition HEXCRE_match :: "string \<Rightarrow> bool" where
  "HEXCRE_match l =
     (case l of
        [] \<Rightarrow> False
      | c # hs \<Rightarrow> c = CHR '':'' \<and> 10 \<le> length hs \<and> even (length hs) \<and> list_all (is_digit 16) hs)"

definition IHexFastParser_record :: "IHexParser \<Rightarrow> string \<Rightarrow> error + IHexParser" where
  "IHexFastParser_record p mo =
     andThen (unhexlify (slice_from mo 1)) (\<lambda>bvalues.
     let size = uint (bvalues ! 0);
         rsum = uint (last bvalues);
         dat = slice bvalues 4 (- 1)
     in if int (length dat) \<noteq> size then Inl IHexError_line
        else
          andThen
            (if verify p \<and> rsum \<noteq> (- sum_list (map uint (slice_to bvalues (- 1)))) AND 0xff
             then Inl IHexError_checksum else Inr ())
            (\<lambda>_.
          let address = push_bit 8 (uint (bvalues ! 1)) + uint (bvalues ! 2);
              record = uint (bvalues ! 3)
          in andThen (if verify p \<and> record \<noteq> 0 then verify_address p address else Inr ())
               (\<lambda>_.
             if record = 0
             then (let address' = address + offset_addr p;
                       addr = address' - offset p;
                       p1 = (case seg p of
                               Some s \<Rightarrow>
                                 (let g = addr - absaddr s;
                                      g' = (if g < 0 then - g else g)
                                  in if g' \<ge> gap p then store_segment p else p)
                             | None \<Rightarrow> p);
                       s0 = (case seg p1 of None \<Rightarrow> RecordSegment_init addr | Some s \<Rightarrow> s)
                   in andThen (write_with_size s0 dat size (Some addr))
                        (\<lambda>s'. Inr (p1\<lparr>seg := Some s'\<rparr>)))
             else if record = 1
             then (if address \<noteq> 0 then Inl NameError else Inr p)
             else if record = 2
             then (if size \<noteq> 2 then Inl IHexError_segment_address
                   else Inr (p\<lparr>offset_addr :=
                          (offset_addr p AND NOT (push_bit 20 1 - 1))
                          OR push_bit 4 (push_bit 8 (uint (dat ! 0)) + uint (dat ! 1))\<rparr>))
             else if record = 4
             then (if size \<noteq> 2 then Inl IHexError_linear_address
                   else Inr (p\<lparr>offset_addr :=
                          push_bit 16 (push_bit 8 (uint (dat ! 0)) + uint (dat ! 1))\<rparr>))
             else if record = 3
             then (if size \<noteq> 4 then Inl IHexError_start_address
                   else Inr (p\<lparr>exec_addr :=
                          Some (push_bit 4 (push_bit 8 (uint (dat ! 0)) + uint (dat ! 1))
                                + (push_bit 8 (uint (dat ! 2)) + uint (dat ! 3)))\<rparr>))
             else Inr p)))"

fun IHexFastParser_loop :: "IHexParser \<Rightarrow> string list \<Rightarrow> error + IHexParser" where
  "IHexFastParser_loop p [] = Inr p"
| "IHexFastParser_loop p (mo # mos) =
     andThen (IHexFastParser_record p mo) (\<lambda>p'. IHexFastParser_loop p' mos)"

definition IHexFastParser_parse :: "IHexParser \<Rightarrow> error + IHexParser" where
  "IHexFastParser_parse p =
     andThen (IHexFastParser_loop (p\<lparr>src := []\<rparr>) (filter HEXCRE_match (src p)))
       (\<lambda>p'. Inr (store_segment p'))"

subsection \<open>\<^verbatim>\<open>TItxtParser\<close>\<close>

text \<open>
  \<^verbatim>\<open>TItxtParser._get_next_chunk\<close>: the local variable \<^verbatim>\<open>address\<close> is unbound
  until a line \<^verbatim>\<open>@...\<close> sets it; the iterator stops reading at the line \<^verbatim>\<open>q\<close>
  and leaves the lines after it in the stream. The address is checked whatever
  \<^verbatim>\<open>_verify\<close> says.
\<close>

fun TItxtParser_get_next_chunk ::
  "'a RecordParser_scheme \<Rightarrow> int option \<Rightarrow> string list \<Rightarrow> (chunk list \<times> error option) \<times> string list" where
  "TItxtParser_get_next_chunk p address [] = (([], None), [])"
| "TItxtParser_get_next_chunk p address (l # ls) =
     (let line = strip l in
      if take 1 line = ''@''
      then (case py_int 16 (slice_from line 1) of
              Inl e \<Rightarrow> (([], Some e), ls)
            | Inr a \<Rightarrow> TItxtParser_get_next_chunk p (Some a) ls)
      else if line = ''q'' then (([(EOF, 0, [])], None), ls)
      else (case unhexlify line of
              Inl e \<Rightarrow> (([], Some e), ls)
            | Inr bytes \<Rightarrow>
                (case address of
                   None \<Rightarrow> (([], Some UnboundLocalError), ls)
                 | Some a \<Rightarrow>
                     (case verify_address p a of
                        Inl e \<Rightarrow> (([], Some e), ls)
                      | Inr _ \<Rightarrow>
                          (case TItxtParser_get_next_chunk p (Some (a + int (length bytes))) ls of
                             ((cs, e), rest) \<Rightarrow> (((DATA, a, bytes) # cs, e), rest))))))"

definition TItxtParser_parse :: "RecordParser \<Rightarrow> error + RecordParser" where
  "TItxtParser_parse p =
     (case TItxtParser_get_next_chunk p None (src p) of
        (it, rest) \<Rightarrow> andThen (RecordParser_parse p it) (\<lambda>p'. Inr (p'\<lparr>src := rest\<rparr>)))"

section \<open>The builders\<close>

text \<open>
  \<^verbatim>\<open>RecordBuilder.build\<close> writes lines to a \<^verbatim>\<open>StringIO\<close>, each followed by the
  line separator; the model returns the lines written. The four class methods of a builder
  are parameters. An info segment that is not \<^verbatim>\<open>None\<close> is true.
  \<^verbatim>\<open>range(0, len(data), 16)\<close> with \<^verbatim>\<open>data[pos:pos+16]\<close> cuts the data into
  \<open>chunks16\<close>.
\<close>

definition chunks16 :: "'a list \<Rightarrow> 'a list list" where
  "chunks16 dat = map (\<lambda>i. take 16 (drop (16 * i) dat)) [0 ..< (length dat + 15) div 16]"

fun build_data ::
  "(int \<Rightarrow> RecordSegment \<Rightarrow> error + string list) \<Rightarrow> int \<Rightarrow> RecordSegment list \<Rightarrow> error + string list" where
  "build_data create_data offs [] = Inr []"
| "build_data create_data offs (dataseg # datasegs) =
     andThen (create_data offs dataseg) (\<lambda>ls.
     andThen (build_data create_data offs datasegs) (\<lambda>rest. Inr (ls @ rest)))"

definition RecordBuilder_build ::
  "(RecordSegment \<Rightarrow> error + string) \<Rightarrow> (int \<Rightarrow> RecordSegment \<Rightarrow> error + string list) \<Rightarrow>
   (int \<Rightarrow> error + string) \<Rightarrow> (error + string) \<Rightarrow>
   RecordSegment list \<Rightarrow> RecordSegment option \<Rightarrow> int option \<Rightarrow> int \<Rightarrow> error + string list" where
  "RecordBuilder_build create_info create_data create_exec create_eof datasegs infoseg execaddr offs =
     andThen (case infoseg of None \<Rightarrow> Inr [] | Some i \<Rightarrow> andThen (create_info i) (\<lambda>l. Inr [l]))
       (\<lambda>info_lines.
     andThen (build_data create_data offs datasegs) (\<lambda>data_lines.
     andThen (case execaddr of None \<Rightarrow> Inr [] | Some a \<Rightarrow> andThen (create_exec a) (\<lambda>l. Inr [l]))
       (\<lambda>exec_lines.
     andThen create_eof (\<lambda>eof.
     Inr (info_lines @ data_lines @ exec_lines @ (if eof \<noteq> [] then [eof] else []))))))"

text \<open>\<^verbatim>\<open>struct.pack('>H', n)\<close> and \<^verbatim>\<open>struct.pack('>I', n)\<close>.\<close>

definition pack_H :: "int \<Rightarrow> error + byte list" where
  "pack_H n = (if 0 \<le> n \<and> n \<le> 0xffff then Inr [of_int (n div 256), of_int n] else Inl struct_error)"

definition pack_I :: "int \<Rightarrow> error + byte list" where
  "pack_I n =
     (if 0 \<le> n \<and> n \<le> 0xffffffff
      then Inr [of_int (n div 16777216), of_int (n div 65536), of_int (n div 256), of_int n]
      else Inl struct_error)"

subsection \<open>\<^verbatim>\<open>IHexBuilder\<close>\<close>

definition IHexBuilder_checksum :: "string \<Rightarrow> error + int" where
  "IHexBuilder_checksum hexastr =
     andThen (unhexlify hexastr) (\<lambda>bs. Inr ((- sum_list (map uint bs)) AND 0xff))"

definition IHexBuilder_create_line :: "int \<Rightarrow> int \<Rightarrow> byte list \<Rightarrow> error + string" where
  "IHexBuilder_create_line rtype address dat =
     (let hexdat = decode (hexlify dat);
          datastr = format_X 2 (int (length dat)) @ format_X 4 address @ format_X 2 rtype @ hexdat
      in andThen (IHexBuilder_checksum datastr)
           (\<lambda>checksum. Inr (upper ('':'' @ datastr @ format_X 2 checksum))))"

fun IHexBuilder_data_loop :: "int \<Rightarrow> int option \<Rightarrow> byte list list \<Rightarrow> error + string list" where
  "IHexBuilder_data_loop address high_addr [] = Inr []"
| "IHexBuilder_data_loop address high_addr (chunk # chunks) =
     (let high = drop_bit 16 address in
      andThen
        (if Some high \<noteq> high_addr
         then andThen (pack_H high) (\<lambda>hi_bytes.
              andThen (IHexBuilder_create_line 4 0 hi_bytes) (\<lambda>l. Inr [l]))
         else Inr [])
        (\<lambda>extended.
      andThen (IHexBuilder_create_line 0 (address AND 0xffff) chunk) (\<lambda>l.
      andThen (IHexBuilder_data_loop (address + 16) (Some high) chunks) (\<lambda>rest.
      Inr (extended @ [l] @ rest)))))"

definition IHexBuilder_create_data :: "int \<Rightarrow> RecordSegment \<Rightarrow> error + string list" where
  "IHexBuilder_create_data offs segment =
     IHexBuilder_data_loop (offs + baseaddr segment) None (chunks16 (data segment))"

definition IHexBuilder_create_exec :: "int \<Rightarrow> error + string" where
  "IHexBuilder_create_exec address =
     (if address < push_bit 20 1
      then (let cs = drop_bit 4 address; ip = address AND 0xFFFF
            in andThen (pack_I (push_bit 16 cs OR ip)) (IHexBuilder_create_line 3 0))
      else andThen (pack_I address) (IHexBuilder_create_line 5 0))"

definition IHexBuilder_build ::
  "RecordSegment list \<Rightarrow> RecordSegment option \<Rightarrow> int option \<Rightarrow> int \<Rightarrow> error + string list" where
  "IHexBuilder_build =
     RecordBuilder_build (\<lambda>segment. Inr []) IHexBuilder_create_data IHexBuilder_create_exec
       (IHexBuilder_create_line 1 0 [])"

subsection \<open>\<^verbatim>\<open>SRecBuilder\<close>\<close>

text \<open>
  \<^verbatim>\<open>hexlify\<close> returns \<^verbatim>\<open>bytes\<close>, and adding \<^verbatim>\<open>bytes\<close> to a \<^verbatim>\<open>str\<close> raises
  \<^verbatim>\<open>TypeError\<close> (\<open>str_add_bytes\<close>); iterating over \<^verbatim>\<open>bytes\<close> gives integers, and
  \<^verbatim>\<open>ord\<close> of an integer raises \<^verbatim>\<open>TypeError\<close>, so the list comprehension of
  \<^verbatim>\<open>SRecBuilder.checksum\<close> only ends on no bytes (\<open>ord_each\<close>). The data lines carry
  the argument \<^verbatim>\<open>offset\<close> as their address, counted up by 16.
\<close>

definition str_add_bytes :: "string \<Rightarrow> byte list \<Rightarrow> error + string" where
  "str_add_bytes s b = Inl TypeError"

fun ord_each :: "byte list \<Rightarrow> error + int list" where
  "ord_each [] = Inr []"
| "ord_each (b # bs) = Inl TypeError"

definition SRecBuilder_checksum :: "string \<Rightarrow> error + int" where
  "SRecBuilder_checksum hexastr =
     andThen (unhexlify hexastr) (\<lambda>bs.
     andThen (ord_each bs) (\<lambda>ds. Inr ((sum_list ds AND 0xff) XOR 0xff)))"

definition SRecBuilder_create_info :: "RecordSegment \<Rightarrow> error + string" where
  "SRecBuilder_create_info segment =
     (let msg = slice_to (data segment) 16 in
      andThen (str_add_bytes (''S0'' @ format_X 2 (int (length msg) + 2 + 1) @ format_X 4 0) (hexlify msg))
        (\<lambda>line.
      andThen (SRecBuilder_checksum (slice_from line 2)) (\<lambda>c. Inr (upper (line @ format_x 2 c)))))"

fun SRecBuilder_data_loop :: "int \<Rightarrow> nat \<Rightarrow> int \<Rightarrow> byte list list \<Rightarrow> error + string list" where
  "SRecBuilder_data_loop rec_digit width offs [] = Inr []"
| "SRecBuilder_data_loop rec_digit width offs (chunk # chunks) =
     andThen
       (str_add_bytes
          (''S'' @ format_x 1 rec_digit @ format_x 2 (int (length chunk) + rec_digit + 1 + 1)
             @ format_x width offs)
          (hexlify chunk))
       (\<lambda>line.
     andThen (SRecBuilder_checksum (slice_from line 2)) (\<lambda>c.
     andThen (SRecBuilder_data_loop rec_digit width (offs + 16) chunks) (\<lambda>rest.
     Inr (upper (line @ format_x 2 c) # rest))))"

definition SRecBuilder_create_data :: "int \<Rightarrow> RecordSegment \<Rightarrow> error + string list" where
  "SRecBuilder_create_data offs segment =
     (let dat = data segment; upaddr = baseaddr segment + int (length dat) in
      if upaddr < push_bit 16 1 then SRecBuilder_data_loop 1 4 offs (chunks16 dat)
      else if upaddr < push_bit 24 1 then SRecBuilder_data_loop 2 6 offs (chunks16 dat)
      else SRecBuilder_data_loop 3 8 offs (chunks16 dat))"

definition SRecBuilder_create_exec :: "int \<Rightarrow> error + string" where
  "SRecBuilder_create_exec address =
     (let line = (if address < push_bit 16 1 then ''S903'' @ format_x 4 address
                  else if address < push_bit 24 1 then ''S804'' @ format_x 6 address
                  else ''S705'' @ format_x 8 address)
      in andThen (SRecBuilder_checksum (slice_from line 2)) (\<lambda>c. Inr (upper (line @ format_x 2 c))))"

definition SRecBuilder_build ::
  "RecordSegment list \<Rightarrow> RecordSegment option \<Rightarrow> int option \<Rightarrow> int \<Rightarrow> error + string list" where
  "SRecBuilder_build =
     RecordBuilder_build SRecBuilder_create_info SRecBuilder_create_data SRecBuilder_create_exec
       (Inr [])"

subsection \<open>\<^verbatim>\<open>TItxtBuilder\<close>\<close>

fun join :: "string \<Rightarrow> string list \<Rightarrow> string" where
  "join sep [] = []"
| "join sep [x] = x"
| "join sep (x # y # ys) = x @ sep @ join sep (y # ys)"

definition TItxtBuilder_create_data :: "int \<Rightarrow> RecordSegment \<Rightarrow> error + string list" where
  "TItxtBuilder_create_data offs segment =
     (let dat = data segment in
      Inr ((if dat \<noteq> [] then [''@'' @ format_x 4 (baseaddr segment + offs)] else [])
           @ map (\<lambda>chunk. upper (join '' '' (map (\<lambda>b. format_x 2 (uint b)) chunk))) (chunks16 dat)))"

definition TItxtBuilder_build ::
  "RecordSegment list \<Rightarrow> RecordSegment option \<Rightarrow> int option \<Rightarrow> int \<Rightarrow> error + string list" where
  "TItxtBuilder_build =
     RecordBuilder_build (\<lambda>segment. Inl NotImplementedError) TItxtBuilder_create_data
       (\<lambda>address. Inl NotImplementedError) (Inr ''q'')"

section \<open>The merge driver \<^verbatim>\<open>mergehex.py\<close>\<close>

text \<open>
  \<^verbatim>\<open>main\<close> with the option \<^verbatim>\<open>--noexec\<close> as \<open>noexec\<close> and without
  \<^verbatim>\<open>--report\<close>. Each input is parsed by an \<^verbatim>\<open>IHexParser\<close> with the default
  options; \<open>merge_input\<close> is the rest of the loop body for one parsed input, on the state
  \<^verbatim>\<open>(start_addr, segments)\<close>. The inputs are handled in order and the first error ends
  the run, so the loop takes each input's parse result as it comes. Both errors are a
  \<^verbatim>\<open>RuntimeError\<close>, told apart by their messages.
\<close>

definition segment_override :: "RecordSegment \<Rightarrow> RecordSegment \<Rightarrow> bool" where
  "segment_override segment s =
     (let c_start = baseaddr segment;
          c_end = baseaddr segment + seg_size segment;
          s_start = baseaddr s;
          s_end = baseaddr s + seg_size s
      in c_end \<ge> s_start \<and> c_start < s_end)"

fun accept_segments :: "RecordSegment list \<Rightarrow> RecordSegment list \<Rightarrow> error + RecordSegment list" where
  "accept_segments accepted [] = Inr accepted"
| "accept_segments accepted (segment # rest) =
     (if list_ex (segment_override segment) accepted then Inl RuntimeError_segment_override
      else accept_segments (sort_key baseaddr (accepted @ [segment])) rest)"

definition merge_input ::
  "bool \<Rightarrow> int option \<times> RecordSegment list \<Rightarrow> 'a RecordParser_scheme \<Rightarrow>
   error + (int option \<times> RecordSegment list)" where
  "merge_input noexec st parser =
     (let start_addr = fst st; exec = getexec parser in
      andThen
        (if \<not> noexec \<and> exec \<noteq> None
         then (if start_addr \<noteq> None \<and> start_addr \<noteq> exec then Inl RuntimeError_start_address
               else Inr exec)
         else Inr start_addr)
        (\<lambda>start_addr'.
      andThen (accept_segments (snd st) (get_data_segments parser))
        (\<lambda>accepted. Inr (start_addr', accepted))))"

fun main_loop ::
  "bool \<Rightarrow> int option \<times> RecordSegment list \<Rightarrow> (error + 'a RecordParser_scheme) list \<Rightarrow>
   error + (int option \<times> RecordSegment list)" where
  "main_loop noexec st [] = Inr st"
| "main_loop noexec st (parsed # rest) =
     andThen parsed (\<lambda>parser.
     andThen (merge_input noexec st parser) (\<lambda>st'. main_loop noexec st' rest))"

definition mergehex_main :: "bool \<Rightarrow> string list list \<Rightarrow> error + string list" where
  "mergehex_main noexec inputs =
     andThen
       (main_loop noexec (None, [])
          (map (\<lambda>inhex. andThen (IHexParser_init inhex 0 0 0xffffffff 16 True) IHexParser_parse) inputs))
       (\<lambda>st. IHexBuilder_build (snd st) None (if noexec then None else fst st) 0)"

section \<open>Example inputs\<close>

text \<open>
  Parsers as \<^verbatim>\<open>IHexParser.parse\<close> leaves them, for the merge driver: \<open>parsed_8000\<close>
  has the execution address 0x8000 and one segment of 16 bytes at 0x1000,
  \<open>parsed_9000\<close> has the execution address 0x9000 and one segment of 4 bytes at 0x2000,
  \<open>parsed_none\<close> is \<open>parsed_9000\<close> without an execution address.
\<close>

definition segment_of :: "int \<Rightarrow> byte list \<Rightarrow> RecordSegment" where
  "segment_of base bs =
     \<lparr>baseaddr = base, seg_size = int (length bs), buffer = \<lparr>buf = bs, pos = length bs\<rparr>\<rparr>"

definition parsed :: "int option \<Rightarrow> RecordSegment list \<Rightarrow> IHexParser" where
  "parsed exec segs =
     \<lparr>src = [], offset = 0, min_addr = 0, max_addr = 0xffffffff, exec_addr = exec,
      segments = segs, info = None, gap = 16, seg = None, verify = True, offset_addr = 0\<rparr>"

definition parsed_8000 :: IHexParser where
  "parsed_8000 =
     parsed (Some 0x8000) [segment_of 0x1000 [0, 1, 2, 3, 4, 5, 6, 7, 8, 9, 10, 11, 12, 13, 14, 15]]"

definition parsed_9000 :: IHexParser where
  "parsed_9000 = parsed (Some 0x9000) [segment_of 0x2000 [1, 2, 3, 4]]"

definition parsed_none :: IHexParser where
  "parsed_none = parsed None [segment_of 0x2000 [1, 2, 3, 4]]"

section \<open>Properties of \<^verbatim>\<open>RecordSegment.write\<close>\<close>

lemma memcpy_closed:
  "p + length xs \<le> length out \<Longrightarrow> memcpy out p xs = take p out @ xs @ drop (p + length xs) out"
proof (induction xs arbitrary: out p)
  case Nil
  then show ?case by simp
next
  case (Cons x xs)
  have lt: "p < length out" using Cons.prems by simp
  have "memcpy (out[p := x]) (Suc p) xs
        = take (Suc p) (out[p := x]) @ xs @ drop (Suc p + length xs) (out[p := x])"
    using Cons.prems by (intro Cons.IH) simp
  also have "take (Suc p) (out[p := x]) = take p out @ [x]"
    using lt by (simp add: take_Suc_conv_app_nth)
  also have "drop (Suc p + length xs) (out[p := x]) = drop (p + length (x # xs)) out"
    by simp
  finally show ?case by simp
qed

lemma BytesIO_write_closed:
  assumes "d \<noteq> []"
  shows "BytesIO_write b d =
     \<lparr>buf = take (pos b) (buf b) @ replicate (pos b - length (buf b)) 0 @ d
              @ drop (pos b + length d) (buf b),
      pos = pos b + length d\<rparr>"
proof (cases "pos b + length d > length (buf b)")
  case True
  let ?r = "buf b @ replicate (pos b + length d - length (buf b)) 0"
  have len: "pos b + length d \<le> length ?r" using True by simp
  have "memcpy ?r (pos b) d = take (pos b) ?r @ d @ drop (pos b + length d) ?r"
    by (rule memcpy_closed [OF len])
  moreover have "take (pos b) ?r = take (pos b) (buf b) @ replicate (pos b - length (buf b)) 0"
    using True by (simp add: min_def)
  moreover have "drop (pos b + length d) ?r = []" using True by simp
  moreover have "drop (pos b + length d) (buf b) = []" using True by simp
  ultimately show ?thesis using assms True by (simp add: BytesIO_write_def Let_def)
next
  case False
  then have len: "pos b + length d \<le> length (buf b)" by simp
  have "memcpy (buf b) (pos b) d = take (pos b) (buf b) @ d @ drop (pos b + length d) (buf b)"
    by (rule memcpy_closed [OF len])
  moreover have "pos b - length (buf b) = 0" using len by simp
  ultimately show ?thesis using assms False by (simp add: BytesIO_write_def Let_def)
qed

text \<open>
  Claim C9, as stated, fails: a segment at base 0 that holds the bytes 1, 2, 3 and is then
  written the byte 9 at address 1 (which differs from base + size = 3) holds 1, 9, 3
  afterwards, not 1, 2, 3, 9: the write went over the second byte.
\<close>

theorem write_appends_counterexample:
  "andThen (RecordSegment_write (RecordSegment_init 0) [1, 2, 3] None)
     (\<lambda>s. andThen (RecordSegment_write s [9] (Some 1)) (\<lambda>s'. Inr (absaddr s, data s, data s')))
   = Inr (3, [1, 2, 3], [1, 9, 3])
   \<and> [1, 9, 3] \<noteq> [1, 2, 3] @ [9 :: byte]"
  by (simp add: RecordSegment_write_def write_with_size_def RecordSegment_init_def BytesIO_new_def
      BytesIO_write_def BytesIO_seek_def andThen_def data_def absaddr_def BytesIO_getvalue_def
      Let_def)

text \<open>
  Claim C9, amended: a write at an address that differs from base + size seeks to
  \<open>k = at_address - base\<close> first. It raises \<^verbatim>\<open>ValueError\<close> when \<open>k\<close> is negative and
  leaves the segment as it was. Otherwise the size becomes \<open>k\<close> plus the number of bytes
  written; no bytes written leave the data as they were; and written bytes stand at the
  positions from \<open>k\<close> on, after the first \<open>k\<close> bytes of the old data (filled up with zero
  bytes when the old data are shorter) and before the old data beyond the written range.
\<close>

theorem write_at_other_address:
  assumes "a - baseaddr s \<noteq> seg_size s"
  shows "RecordSegment_write s w (Some a) =
     (if a - baseaddr s < 0 then Inl ValueError_negative_seek
      else Inr \<lparr>baseaddr = baseaddr s,
                seg_size = a - baseaddr s + int (length w),
                buffer =
                  (if w = [] then \<lparr>buf = data s, pos = nat (a - baseaddr s)\<rparr>
                   else \<lparr>buf = take (nat (a - baseaddr s)) (data s)
                              @ replicate (nat (a - baseaddr s) - length (data s)) 0
                              @ w
                              @ drop (nat (a - baseaddr s) + length w) (data s),
                         pos = nat (a - baseaddr s) + length w\<rparr>)\<rparr>)"
proof (cases "a - baseaddr s < 0")
  case True
  then show ?thesis using assms
    by (simp add: RecordSegment_write_def write_with_size_def BytesIO_seek_def andThen_def Let_def)
next
  case False
  show ?thesis
  proof (cases "w = []")
    case True
    then show ?thesis using assms False
      by (simp add: RecordSegment_write_def write_with_size_def BytesIO_seek_def andThen_def
          Let_def BytesIO_write_def data_def BytesIO_getvalue_def)
  next
    case nonempty: False
    then show ?thesis using assms False
      by (simp add: RecordSegment_write_def write_with_size_def BytesIO_seek_def andThen_def
          Let_def BytesIO_write_closed data_def BytesIO_getvalue_def)
  qed
qed

theorem write_at_other_address_witness:
  "(1 :: int) - baseaddr \<lparr>baseaddr = 0, seg_size = 3, buffer = \<lparr>buf = [1, 2, 3], pos = 3\<rparr>\<rparr>
     \<noteq> seg_size \<lparr>baseaddr = 0, seg_size = 3, buffer = \<lparr>buf = [1, 2, 3], pos = 3\<rparr>\<rparr>
   \<and> RecordSegment_write \<lparr>baseaddr = 0, seg_size = 3, buffer = \<lparr>buf = [1, 2, 3], pos = 3\<rparr>\<rparr>
        [9] (Some 1)
     = Inr \<lparr>baseaddr = 0, seg_size = 2, buffer = \<lparr>buf = [1, 9, 3], pos = 2\<rparr>\<rparr>"
  using write_at_other_address
    [of 1 "\<lparr>baseaddr = 0, seg_size = 3, buffer = \<lparr>buf = [1, 2, 3], pos = 3\<rparr>\<rparr>" "[9]"]
  by (simp add: data_def BytesIO_getvalue_def)

section \<open>Properties of the parsers' constructors\<close>

text \<open>
  Claim C10: \<^verbatim>\<open>RecordParser.__init__\<close> (which \<^verbatim>\<open>SRecParser\<close> and
  \<^verbatim>\<open>TItxtParser\<close> inherit) and the constructor of \<^verbatim>\<open>IHexParser\<close> and
  \<^verbatim>\<open>IHexFastParser\<close> (which calls it first) raise \<^verbatim>\<open>ValueError\<close> when
  \<open>segment_gap < 1\<close>; otherwise they return a parser that holds the source stream as it was
  handed over, no line of it read, with no segment, no open segment and no execution
  address.
\<close>

theorem parser_init_segment_gap:
  "(segment_gap < 1 \<longrightarrow>
      RecordParser_init source offs lo hi segment_gap vfy = Inl ValueError_segment_gap \<and>
      IHexParser_init source offs lo hi segment_gap vfy = Inl ValueError_segment_gap) \<and>
   (1 \<le> segment_gap \<longrightarrow>
      (\<exists>p. RecordParser_init source offs lo hi segment_gap vfy = Inr p \<and> src p = source \<and>
           segments p = [] \<and> seg p = None \<and> exec_addr p = None \<and> gap p = segment_gap) \<and>
      (\<exists>p. IHexParser_init source offs lo hi segment_gap vfy = Inr p \<and> src p = source \<and>
           segments p = [] \<and> seg p = None \<and> exec_addr p = None \<and> gap p = segment_gap \<and>
           offset_addr p = 0))"
  by (simp add: RecordParser_init_def IHexParser_init_def andThen_def RecordParser.extend_def
      IHexParser.fields_def IHexParser.defs RecordParser.defs)

theorem parser_init_segment_gap_witness:
  "(0 :: int) < 1 \<and>
   RecordParser_init ['':00000001FF''] 0 0 0xffffffff 0 True = Inl ValueError_segment_gap \<and>
   IHexParser_init ['':00000001FF''] 0 0 0xffffffff 0 True = Inl ValueError_segment_gap \<and>
   (1 :: int) \<le> 16 \<and>
   (\<exists>p. RecordParser_init ['':00000001FF''] 0 0 0xffffffff 16 True = Inr p \<and>
        src p = ['':00000001FF'']) \<and>
   (\<exists>p. IHexParser_init ['':00000001FF''] 0 0 0xffffffff 16 True = Inr p \<and>
        src p = ['':00000001FF''])"
  using parser_init_segment_gap [of 0 "['':00000001FF'']" 0 0 "0xffffffff" True]
    parser_init_segment_gap [of 16 "['':00000001FF'']" 0 0 "0xffffffff" True]
  by auto

section \<open>Properties of \<^verbatim>\<open>RecordParser.parse\<close>: the open segment\<close>

lemma fresh_write:
  "RecordSegment_write (RecordSegment_init a) v (Some a) =
     Inr \<lparr>baseaddr = a, seg_size = int (length v), buffer = \<lparr>buf = v, pos = length v\<rparr>\<rparr>"
proof (cases "v = []")
  case True
  then show ?thesis
    by (simp add: RecordSegment_write_def write_with_size_def RecordSegment_init_def
        BytesIO_new_def BytesIO_write_def)
next
  case False
  then show ?thesis
    by (simp add: RecordSegment_write_def write_with_size_def RecordSegment_init_def
        BytesIO_new_def BytesIO_write_closed)
qed

lemma contiguous_write:
  "RecordSegment_write
     \<lparr>baseaddr = a, seg_size = int (length u), buffer = \<lparr>buf = u, pos = length u\<rparr>\<rparr> v
     (Some (a + int (length u))) =
   Inr \<lparr>baseaddr = a, seg_size = int (length u) + int (length v),
        buffer = \<lparr>buf = u @ v, pos = length u + length v\<rparr>\<rparr>"
proof (cases "v = []")
  case True
  then show ?thesis
    by (simp add: RecordSegment_write_def write_with_size_def BytesIO_write_def)
next
  case False
  then show ?thesis
    by (simp add: RecordSegment_write_def write_with_size_def BytesIO_write_closed)
qed

lemma data_record_step:
  assumes "seg p = Some s"
  shows "parse_record p (DATA, address, val) =
      (if gap p \<le> \<bar>address - offset p - absaddr s\<bar>
       then Inr (p\<lparr>segments := (if seg_size s \<noteq> 0 then segments p @ [s] else segments p),
                   seg := Some \<lparr>baseaddr = address - offset p, seg_size = int (length val),
                                buffer = \<lparr>buf = val, pos = length val\<rparr>\<rparr>\<rparr>)
       else andThen (RecordSegment_write s val (Some (address - offset p)))
              (\<lambda>s'. Inr (p\<lparr>seg := Some s'\<rparr>)))"
  using assms
  by (simp add: parse_record_def Let_def store_segment_def fresh_write andThen_def)

lemma first_data_record:
  assumes "seg p = None"
  shows "parse_record p (DATA, address, val) =
      Inr (p\<lparr>seg := Some \<lparr>baseaddr = address - offset p, seg_size = int (length val),
                                buffer = \<lparr>buf = val, pos = length val\<rparr>\<rparr>\<rparr>)"
  using assms
  by (simp add: parse_record_def Let_def fresh_write andThen_def)

lemma two_data_records_contiguous:
  assumes "length v1 = 16"
  shows "andThen (RecordParser_init [] 0 0 0xffffffff 16 True)
           (\<lambda>p. RecordParser_parse p ([(DATA, 0, v1), (DATA, 0x10, v2)], None))
     = Inr \<lparr>src = [], offset = 0, min_addr = 0, max_addr = 0xffffffff, exec_addr = None,
            segments = [\<lparr>baseaddr = 0, seg_size = 16 + int (length v2),
                         buffer = \<lparr>buf = v1 @ v2, pos = 16 + length v2\<rparr>\<rparr>],
            info = None, gap = 16, seg = None, verify = True\<rparr>"
  using assms contiguous_write [of 0 v1 v2]
  by (simp add: RecordParser_init_def RecordParser_parse_def first_data_record data_record_step
      andThen_def absaddr_def store_segment_def)

lemma two_data_records_apart:
  assumes "length v1 = 16" and "v2 \<noteq> []" and "32 \<le> a"
  shows "andThen (RecordParser_init [] 0 0 0xffffffff 16 True)
           (\<lambda>p. RecordParser_parse p ([(DATA, 0, v1), (DATA, a, v2)], None))
     = Inr \<lparr>src = [], offset = 0, min_addr = 0, max_addr = 0xffffffff, exec_addr = None,
            segments = [\<lparr>baseaddr = 0, seg_size = 16, buffer = \<lparr>buf = v1, pos = 16\<rparr>\<rparr>,
                        \<lparr>baseaddr = a, seg_size = int (length v2),
                         buffer = \<lparr>buf = v2, pos = length v2\<rparr>\<rparr>],
            info = None, gap = 16, seg = None, verify = True\<rparr>"
  using assms
  by (simp add: RecordParser_init_def RecordParser_parse_def first_data_record data_record_step
      andThen_def absaddr_def store_segment_def)

text \<open>
  Claim C6, as stated, fails at the boundary: with \<open>segment_gap = 16\<close>, after 16 bytes at
  address 0 the open segment ends at 16, and a record at address 32 is 16 away from that
  end, which is not farther than \<open>segment_gap\<close>, and does not lie before the segment's
  start. The code closes the segment all the same: the parse gives two segments.
\<close>

theorem gap_rule_counterexample:
  "map_sum id (\<lambda>p. map (\<lambda>s. (baseaddr s, data s)) (get_data_segments p))
     (andThen (RecordParser_init [] 0 0 0xffffffff 16 True)
        (\<lambda>p. RecordParser_parse p
           ([(DATA, 0, [1, 2, 3, 4, 5, 6, 7, 8, 9, 10, 11, 12, 13, 14, 15, 16]),
             (DATA, 32, [17])], None)))
   = Inr [(0, [1, 2, 3, 4, 5, 6, 7, 8, 9, 10, 11, 12, 13, 14, 15, 16]), (32, [17])]
   \<and> \<not> (16 :: int) < \<bar>32 - (0 + 16)\<bar> \<and> \<not> (32 :: int) < 0"
  using two_data_records_apart
    [of "[1, 2, 3, 4, 5, 6, 7, 8, 9, 10, 11, 12, 13, 14, 15, 16]" "[17]" 32]
  by (simp add: get_data_segments_def data_def BytesIO_getvalue_def)

text \<open>
  Claim C6, amended: the parser has at most one open segment, and a DATA record that finds
  one open closes it (it joins the result list unless its size is 0, and a new segment
  that holds the record's bytes is opened at the record's address less the parser's offset)
  exactly when the distance between that address and the open segment's end, in either
  direction, is at least \<open>segment_gap\<close>; otherwise the result list stays as it is and the
  record is written into the open segment. So 16 bytes at 0 and then bytes at 16 with
  \<open>segment_gap = 16\<close> give one segment at 0 that holds both, and the same with the second
  record at 256 gives two segments.
\<close>

theorem open_segment_closes_at_gap:
  "(seg p = Some s \<longrightarrow>
      parse_record p (DATA, address, val) =
        (if gap p \<le> \<bar>address - offset p - absaddr s\<bar>
         then Inr (p\<lparr>segments := (if seg_size s \<noteq> 0 then segments p @ [s] else segments p),
                     seg := Some \<lparr>baseaddr = address - offset p, seg_size = int (length val),
                                  buffer = \<lparr>buf = val, pos = length val\<rparr>\<rparr>\<rparr>)
         else andThen (RecordSegment_write s val (Some (address - offset p)))
                (\<lambda>s'. Inr (p\<lparr>seg := Some s'\<rparr>)))) \<and>
   (length v1 = 16 \<and> length v2 = 16 \<longrightarrow>
      map_sum id (\<lambda>p. map (\<lambda>s. (baseaddr s, data s)) (get_data_segments p))
        (andThen (RecordParser_init [] 0 0 0xffffffff 16 True)
           (\<lambda>p. RecordParser_parse p ([(DATA, 0, v1), (DATA, 0x10, v2)], None)))
        = Inr [(0, v1 @ v2)] \<and>
      map_sum id (\<lambda>p. map (\<lambda>s. (baseaddr s, data s)) (get_data_segments p))
        (andThen (RecordParser_init [] 0 0 0xffffffff 16 True)
           (\<lambda>p. RecordParser_parse p ([(DATA, 0, v1), (DATA, 0x100, v2)], None)))
        = Inr [(0, v1), (0x100, v2)])"
proof (intro conjI impI)
  assume "seg p = Some s"
  then show "parse_record p (DATA, address, val) =
        (if gap p \<le> \<bar>address - offset p - absaddr s\<bar>
         then Inr (p\<lparr>segments := (if seg_size s \<noteq> 0 then segments p @ [s] else segments p),
                     seg := Some \<lparr>baseaddr = address - offset p, seg_size = int (length val),
                                  buffer = \<lparr>buf = val, pos = length val\<rparr>\<rparr>\<rparr>)
         else andThen (RecordSegment_write s val (Some (address - offset p)))
                (\<lambda>s'. Inr (p\<lparr>seg := Some s'\<rparr>)))"
    by (rule data_record_step)
next
  assume len: "length v1 = 16 \<and> length v2 = 16"
  then show "map_sum id (\<lambda>p. map (\<lambda>s. (baseaddr s, data s)) (get_data_segments p))
        (andThen (RecordParser_init [] 0 0 0xffffffff 16 True)
           (\<lambda>p. RecordParser_parse p ([(DATA, 0, v1), (DATA, 0x10, v2)], None)))
        = Inr [(0, v1 @ v2)]"
    using two_data_records_contiguous [of v1 v2]
    by (simp add: get_data_segments_def data_def BytesIO_getvalue_def)
next
  assume len: "length v1 = 16 \<and> length v2 = 16"
  then have "v2 \<noteq> []" by auto
  with len show "map_sum id (\<lambda>p. map (\<lambda>s. (baseaddr s, data s)) (get_data_segments p))
        (andThen (RecordParser_init [] 0 0 0xffffffff 16 True)
           (\<lambda>p. RecordParser_parse p ([(DATA, 0, v1), (DATA, 0x100, v2)], None)))
        = Inr [(0, v1), (0x100, v2)]"
    using two_data_records_apart [of v1 v2 "0x100"]
    by (simp add: get_data_segments_def data_def BytesIO_getvalue_def)
qed

theorem open_segment_closes_at_gap_witness:
  "seg \<lparr>src = [], offset = 0, min_addr = 0, max_addr = 0xffffffff, exec_addr = None,
        segments = [], info = None, gap = 16,
        seg = Some \<lparr>baseaddr = 0, seg_size = 2, buffer = \<lparr>buf = [1, 2], pos = 2\<rparr>\<rparr>,
        verify = True\<rparr>
     = Some \<lparr>baseaddr = 0, seg_size = 2, buffer = \<lparr>buf = [1, 2], pos = 2\<rparr>\<rparr> \<and>
   parse_record
     \<lparr>src = [], offset = 0, min_addr = 0, max_addr = 0xffffffff, exec_addr = None,
      segments = [], info = None, gap = 16,
      seg = Some \<lparr>baseaddr = 0, seg_size = 2, buffer = \<lparr>buf = [1, 2], pos = 2\<rparr>\<rparr>,
      verify = True\<rparr>
     (DATA, 18, [3])
     = Inr \<lparr>src = [], offset = 0, min_addr = 0, max_addr = 0xffffffff, exec_addr = None,
            segments = [\<lparr>baseaddr = 0, seg_size = 2, buffer = \<lparr>buf = [1, 2], pos = 2\<rparr>\<rparr>],
            info = None, gap = 16,
            seg = Some \<lparr>baseaddr = 18, seg_size = 1, buffer = \<lparr>buf = [3], pos = 1\<rparr>\<rparr>,
            verify = True\<rparr> \<and>
   length [1, 2, 3, 4, 5, 6, 7, 8, 9, 10, 11, 12, 13, 14, 15, 16 :: byte] = 16 \<and>
   length [17, 18, 19, 20, 21, 22, 23, 24, 25, 26, 27, 28, 29, 30, 31, 32 :: byte] = 16 \<and>
   map_sum id (\<lambda>p. map (\<lambda>s. (baseaddr s, data s)) (get_data_segments p))
     (andThen (RecordParser_init [] 0 0 0xffffffff 16 True)
        (\<lambda>p. RecordParser_parse p
           ([(DATA, 0, [1, 2, 3, 4, 5, 6, 7, 8, 9, 10, 11, 12, 13, 14, 15, 16]),
             (DATA, 0x10, [17, 18, 19, 20, 21, 22, 23, 24, 25, 26, 27, 28, 29, 30, 31, 32])],
            None)))
     = Inr [(0, [1, 2, 3, 4, 5, 6, 7, 8, 9, 10, 11, 12, 13, 14, 15, 16,
                 17, 18, 19, 20, 21, 22, 23, 24, 25, 26, 27, 28, 29, 30, 31, 32])] \<and>
   map_sum id (\<lambda>p. map (\<lambda>s. (baseaddr s, data s)) (get_data_segments p))
     (andThen (RecordParser_init [] 0 0 0xffffffff 16 True)
        (\<lambda>p. RecordParser_parse p
           ([(DATA, 0, [1, 2, 3, 4, 5, 6, 7, 8, 9, 10, 11, 12, 13, 14, 15, 16]),
             (DATA, 0x100, [17, 18, 19, 20, 21, 22, 23, 24, 25, 26, 27, 28, 29, 30, 31, 32])],
            None)))
     = Inr [(0, [1, 2, 3, 4, 5, 6, 7, 8, 9, 10, 11, 12, 13, 14, 15, 16]),
            (0x100, [17, 18, 19, 20, 21, 22, 23, 24, 25, 26, 27, 28, 29, 30, 31, 32])]"
  using open_segment_closes_at_gap
    [of "\<lparr>src = [], offset = 0, min_addr = 0, max_addr = 0xffffffff, exec_addr = None,
          segments = [], info = None, gap = 16,
          seg = Some \<lparr>baseaddr = 0, seg_size = 2, buffer = \<lparr>buf = [1, 2], pos = 2\<rparr>\<rparr>,
          verify = True\<rparr>"
        "\<lparr>baseaddr = 0, seg_size = 2, buffer = \<lparr>buf = [1, 2], pos = 2\<rparr>\<rparr>"
        18 "[3]"
        "[1, 2, 3, 4, 5, 6, 7, 8, 9, 10, 11, 12, 13, 14, 15, 16]"
        "[17, 18, 19, 20, 21, 22, 23, 24, 25, 26, 27, 28, 29, 30, 31, 32]"]
  by (simp add: absaddr_def)

section \<open>Properties of the merge driver: the execution address\<close>

lemma main_loop_noexec_start:
  "main_loop True (x, segs) (map Inr ps) = Inr (y, segs') \<Longrightarrow> y = x"
proof (induction ps arbitrary: segs)
  case Nil
  then show ?case by simp
next
  case (Cons p ps)
  then show ?case
    by (auto simp: andThen_def merge_input_def split: sum.splits)
qed

lemma main_loop_noexec_any_start:
  "main_loop True (x, segs) (map Inr ps) = Inr (x, segs') \<Longrightarrow>
   main_loop True (y, segs) (map Inr ps) = Inr (y, segs')"
proof (induction ps arbitrary: segs)
  case Nil
  then show ?case by simp
next
  case (Cons p ps)
  then show ?case
    by (auto simp: andThen_def merge_input_def split: sum.splits)
qed

lemma main_loop_noexec_never_conflicts:
  "main_loop True st (map Inr ps) \<noteq> Inl RuntimeError_start_address"
proof (induction ps arbitrary: st)
  case Nil
  then show ?case by simp
next
  case (Cons p ps)
  have no_conflict: "accept_segments acc new \<noteq> Inl RuntimeError_start_address" for acc new
    by (induction acc new rule: accept_segments.induct) auto
  show ?case
    using Cons.IH no_conflict [of "snd st" "get_data_segments p"]
    by (auto simp: andThen_def merge_input_def split: sum.splits)
qed

lemma main_loop_conflict_with_start:
  assumes "main_loop True (x, segs) (map Inr ps) = Inr (x, segs')"
    and "p \<in> set ps" and "getexec p = Some b" and "a \<noteq> b"
  shows "main_loop False (Some a, segs) (map Inr ps) = Inl RuntimeError_start_address"
  using assms
proof (induction ps arbitrary: segs)
  case Nil
  then show ?case by simp
next
  case (Cons q ps)
  show ?case
  proof (cases "getexec q = None \<or> getexec q = Some a")
    case False
    then show ?thesis by (auto simp: andThen_def merge_input_def)
  next
    case True
    then have "p \<noteq> q" using Cons.prems by auto
    then have mem: "p \<in> set ps" using Cons.prems by simp
    obtain segs1 where acc: "accept_segments segs (get_data_segments q) = Inr segs1"
      and rest: "main_loop True (x, segs1) (map Inr ps) = Inr (x, segs')"
      using Cons.prems(1) by (auto simp: andThen_def merge_input_def split: sum.splits)
    have "main_loop False (Some a, segs1) (map Inr ps) = Inl RuntimeError_start_address"
      using Cons.IH [OF rest mem Cons.prems(3) Cons.prems(4)] .
    then show ?thesis using True acc
      by (auto simp: andThen_def merge_input_def)
  qed
qed

lemma main_loop_compatible:
  assumes "main_loop True (x, segs) (map Inr ps) = Inr (x, segs')"
    and "list_all (\<lambda>p. getexec p = None \<or> getexec p = Some a) ps"
    and "sa = None \<or> sa = Some a"
  shows "main_loop False (sa, segs) (map Inr ps) =
           Inr (if list_ex (\<lambda>p. getexec p = Some a) ps then Some a else sa, segs')"
  using assms
proof (induction ps arbitrary: segs sa)
  case Nil
  then show ?case by simp
next
  case (Cons q ps)
  obtain segs1 where acc: "accept_segments segs (get_data_segments q) = Inr segs1"
    and rest: "main_loop True (x, segs1) (map Inr ps) = Inr (x, segs')"
    using Cons.prems(1) by (auto simp: andThen_def merge_input_def split: sum.splits)
  have all: "list_all (\<lambda>p. getexec p = None \<or> getexec p = Some a) ps"
    using Cons.prems(2) by simp
  show ?case
  proof (cases "getexec q")
    case None
    then show ?thesis
      using acc Cons.IH [OF rest all Cons.prems(3)]
      by (simp add: andThen_def merge_input_def)
  next
    case (Some c)
    then have c: "c = a" using Cons.prems(2) by simp
    have "main_loop False (Some a, segs1) (map Inr ps) =
            Inr (if list_ex (\<lambda>p. getexec p = Some a) ps then Some a else Some a, segs')"
      by (rule Cons.IH [OF rest all]) simp
    then show ?thesis
      using acc Some c Cons.prems(3)
      by (auto simp: andThen_def merge_input_def)
  qed
qed

lemma main_loop_two_different:
  assumes "main_loop True (x, segs) (map Inr ps) = Inr (x, segs')"
    and "i < j" and "j < length ps"
    and "getexec (ps ! i) = Some a" and "getexec (ps ! j) = Some b" and "a \<noteq> b"
  shows "main_loop False (sa, segs) (map Inr ps) = Inl RuntimeError_start_address"
  using assms
proof (induction ps arbitrary: segs sa i j)
  case Nil
  then show ?case by simp
next
  case (Cons q ps)
  obtain segs1 where acc: "accept_segments segs (get_data_segments q) = Inr segs1"
    and rest: "main_loop True (x, segs1) (map Inr ps) = Inr (x, segs')"
    using Cons.prems(1) by (auto simp: andThen_def merge_input_def split: sum.splits)
  obtain j' where j': "j = Suc j'" using Cons.prems(2) by (cases j) auto
  then have pj: "ps ! j' \<in> set ps" and ej: "getexec (ps ! j') = Some b"
    using Cons.prems by auto
  show ?case
  proof (cases "getexec q")
    case None
    then obtain i' where i': "i = Suc i'" using Cons.prems(4) by (cases i) auto
    have "main_loop False (sa, segs1) (map Inr ps) = Inl RuntimeError_start_address"
      using Cons.IH [OF rest, of i' j' sa] Cons.prems i' j' by simp
    then show ?thesis using None acc by (simp add: andThen_def merge_input_def)
  next
    case (Some c)
    show ?thesis
    proof (cases "sa = None \<or> sa = Some c")
      case False
      then show ?thesis using Some by (auto simp: andThen_def merge_input_def)
    next
      case True
      have "\<exists>p d. p \<in> set ps \<and> getexec p = Some d \<and> c \<noteq> d"
      proof (cases "c = b")
        case False
        then show ?thesis using pj ej by blast
      next
        case True
        then have "c \<noteq> a" using Cons.prems(6) by simp
        then obtain i' where i': "i = Suc i'" using Cons.prems(4) Some by (cases i) auto
        then have "ps ! i' \<in> set ps" and "getexec (ps ! i') = Some a"
          using Cons.prems j' by auto
        then show ?thesis using \<open>c \<noteq> a\<close> by blast
      qed
      then obtain p d where "p \<in> set ps" "getexec p = Some d" "c \<noteq> d" by blast
      then have "main_loop False (Some c, segs1) (map Inr ps) = Inl RuntimeError_start_address"
        using main_loop_conflict_with_start [OF rest] by blast
      then show ?thesis using Some True acc by (auto simp: andThen_def merge_input_def)
    qed
  qed
qed
text \<open>
  Claim C8, as stated, fails when the driver runs with \<^verbatim>\<open>--noexec\<close>: two inputs that
  define the execution addresses 0x8000 and 0x9000 are merged without an error, and the
  merged image has no execution address.
\<close>

theorem exec_conflict_counterexample:
  "getexec parsed_8000 = Some 0x8000 \<and> getexec parsed_9000 = Some 0x9000 \<and>
   main_loop True (None, []) [Inr parsed_8000, Inr parsed_9000] =
     Inr (None, [segment_of 0x1000 [0, 1, 2, 3, 4, 5, 6, 7, 8, 9, 10, 11, 12, 13, 14, 15],
                 segment_of 0x2000 [1, 2, 3, 4]])"
  by (simp add: parsed_8000_def parsed_9000_def parsed_def segment_of_def getexec_def
      get_data_segments_def merge_input_def andThen_def segment_override_def)

text \<open>
  Claim C8, amended: with \<^verbatim>\<open>--noexec\<close> the driver never raises the error of several
  start addresses and its start address stays undefined. Without \<^verbatim>\<open>--noexec\<close>, for
  inputs whose segments it accepts (as the run with \<^verbatim>\<open>--noexec\<close> shows): it fails
  with that error when two inputs define different execution addresses, and when at least
  one input defines the execution address \<open>a\<close> and every other input defines \<open>a\<close> or
  none, the merge succeeds and carries \<open>a\<close>. So merging 0x8000 with 0x9000 fails, and
  merging 0x8000 with none succeeds with 0x8000.
\<close>

theorem exec_address_merge:
  "main_loop True (None, []) (map Inr ps) \<noteq> Inl RuntimeError_start_address \<and>
   (main_loop True (None, []) (map Inr ps) = Inr (x, segs) \<longrightarrow>
      x = None \<and>
      (i < j \<and> j < length ps \<and> getexec (ps ! i) = Some a \<and> getexec (ps ! j) = Some b \<and> a \<noteq> b \<longrightarrow>
         main_loop False (None, []) (map Inr ps) = Inl RuntimeError_start_address) \<and>
      (list_ex (\<lambda>p. getexec p = Some c) ps \<and>
       list_all (\<lambda>p. getexec p = None \<or> getexec p = Some c) ps \<longrightarrow>
         main_loop False (None, []) (map Inr ps) = Inr (Some c, segs)))"
proof (intro conjI impI)
  show "main_loop True (None, []) (map Inr ps) \<noteq> Inl RuntimeError_start_address"
    by (rule main_loop_noexec_never_conflicts)
next
  assume "main_loop True (None, []) (map Inr ps) = Inr (x, segs)"
  then show "x = None" by (rule main_loop_noexec_start)
next
  assume ok: "main_loop True (None, []) (map Inr ps) = Inr (x, segs)"
    and "i < j \<and> j < length ps \<and> getexec (ps ! i) = Some a \<and> getexec (ps ! j) = Some b \<and> a \<noteq> b"
  moreover have "x = None" using ok by (rule main_loop_noexec_start)
  ultimately show "main_loop False (None, []) (map Inr ps) = Inl RuntimeError_start_address"
    using main_loop_two_different [of None "[]" ps segs i j a b None] by simp
next
  assume ok: "main_loop True (None, []) (map Inr ps) = Inr (x, segs)"
    and c: "list_ex (\<lambda>p. getexec p = Some c) ps \<and>
            list_all (\<lambda>p. getexec p = None \<or> getexec p = Some c) ps"
  moreover have "x = None" using ok by (rule main_loop_noexec_start)
  ultimately show "main_loop False (None, []) (map Inr ps) = Inr (Some c, segs)"
    using main_loop_compatible [of None "[]" ps segs c None] by simp
qed

theorem exec_address_merge_witness:
  "main_loop True (None, []) (map Inr [parsed_8000, parsed_9000]) =
     Inr (None, [segment_of 0x1000 [0, 1, 2, 3, 4, 5, 6, 7, 8, 9, 10, 11, 12, 13, 14, 15],
                 segment_of 0x2000 [1, 2, 3, 4]]) \<and>
   (0 :: nat) < 1 \<and> 1 < length [parsed_8000, parsed_9000] \<and>
   getexec ([parsed_8000, parsed_9000] ! 0) = Some 0x8000 \<and>
   getexec ([parsed_8000, parsed_9000] ! 1) = Some 0x9000 \<and> (0x8000 :: int) \<noteq> 0x9000 \<and>
   main_loop False (None, []) (map Inr [parsed_8000, parsed_9000]) =
     Inl RuntimeError_start_address \<and>
   main_loop True (None, []) (map Inr [parsed_8000, parsed_none]) =
     Inr (None, [segment_of 0x1000 [0, 1, 2, 3, 4, 5, 6, 7, 8, 9, 10, 11, 12, 13, 14, 15],
                 segment_of 0x2000 [1, 2, 3, 4]]) \<and>
   list_ex (\<lambda>p. getexec p = Some 0x8000) [parsed_8000, parsed_none] \<and>
   list_all (\<lambda>p. getexec p = None \<or> getexec p = Some 0x8000) [parsed_8000, parsed_none] \<and>
   main_loop False (None, []) (map Inr [parsed_8000, parsed_none]) =
     Inr (Some 0x8000, [segment_of 0x1000 [0, 1, 2, 3, 4, 5, 6, 7, 8, 9, 10, 11, 12, 13, 14, 15],
                        segment_of 0x2000 [1, 2, 3, 4]])"
proof -
  have noexec1: "main_loop True (None, []) (map Inr [parsed_8000, parsed_9000]) =
     Inr (None, [segment_of 0x1000 [0, 1, 2, 3, 4, 5, 6, 7, 8, 9, 10, 11, 12, 13, 14, 15],
                 segment_of 0x2000 [1, 2, 3, 4]])"
    by (simp add: parsed_8000_def parsed_9000_def parsed_def segment_of_def getexec_def
        get_data_segments_def merge_input_def andThen_def segment_override_def)
  have noexec2: "main_loop True (None, []) (map Inr [parsed_8000, parsed_none]) =
     Inr (None, [segment_of 0x1000 [0, 1, 2, 3, 4, 5, 6, 7, 8, 9, 10, 11, 12, 13, 14, 15],
                 segment_of 0x2000 [1, 2, 3, 4]])"
    by (simp add: parsed_8000_def parsed_none_def parsed_def segment_of_def getexec_def
        get_data_segments_def merge_input_def andThen_def segment_override_def)
  have execs: "getexec parsed_8000 = Some 0x8000" "getexec parsed_9000 = Some 0x9000"
    "getexec parsed_none = None"
    by (simp_all add: parsed_8000_def parsed_9000_def parsed_none_def parsed_def getexec_def)
  show ?thesis
    using exec_address_merge
      [of "[parsed_8000, parsed_9000]" None
          "[segment_of 0x1000 [0, 1, 2, 3, 4, 5, 6, 7, 8, 9, 10, 11, 12, 13, 14, 15],
            segment_of 0x2000 [1, 2, 3, 4]]" 0 1 "0x8000" "0x9000" "0x8000"]
      exec_address_merge
      [of "[parsed_8000, parsed_none]" None
          "[segment_of 0x1000 [0, 1, 2, 3, 4, 5, 6, 7, 8, 9, 10, 11, 12, 13, 14, 15],
            segment_of 0x2000 [1, 2, 3, 4]]" 0 1 "0x8000" "0x9000" "0x8000"]
      noexec1 noexec2 execs
    by simp
qed

section \<open>Evaluating the line parser of Intel HEX and the merge driver\<close>

lemma data_line_1010:
  "IHexParser_line p oa '':10101000000102030405060708090A0B0C0D0E0F58''
   = Inr (Some (DATA, 0x1010 + oa, [0, 1, 2, 3, 4, 5, 6, 7, 8, 9, 10, 11, 12, 13, 14, 15]), oa)"
  by (simp add: IHexParser_line_def strip_def isspace_def slice_def slice_from_def slice_to_def
      clamp_index_def py_int_def Py_ISSPACE_def is_digit_def digit_value_def unhexlify_def
      andThen_def Let_def)

lemma data_line_1000:
  "IHexParser_line p oa '':10100000101112131415161718191A1B1C1D1E1F68''
   = Inr (Some (DATA, 0x1000 + oa, [16, 17, 18, 19, 20, 21, 22, 23, 24, 25, 26, 27, 28, 29, 30, 31]), oa)"
  by (simp add: IHexParser_line_def strip_def isspace_def slice_def slice_from_def slice_to_def
      clamp_index_def py_int_def Py_ISSPACE_def is_digit_def digit_value_def unhexlify_def
      andThen_def Let_def)

lemma parse_1010:
  "andThen (IHexParser_init ['':10101000000102030405060708090A0B0C0D0E0F58''] 0 0 0xffffffff 16 True)
     IHexParser_parse
   = Inr (parsed None [segment_of 0x1010 [0, 1, 2, 3, 4, 5, 6, 7, 8, 9, 10, 11, 12, 13, 14, 15]])"
  by (simp add: IHexParser_init_def RecordParser_init_def andThen_def RecordParser.extend_def
      IHexParser.fields_def IHexParser.defs RecordParser.defs IHexParser_parse_def data_line_1010
      RecordParser_parse_def first_data_record store_segment_def parsed_def segment_of_def)

lemma parse_1000:
  "andThen (IHexParser_init ['':10100000101112131415161718191A1B1C1D1E1F68''] 0 0 0xffffffff 16 True)
     IHexParser_parse
   = Inr (parsed None [segment_of 0x1000 [16, 17, 18, 19, 20, 21, 22, 23, 24, 25, 26, 27, 28, 29, 30, 31]])"
  by (simp add: IHexParser_init_def RecordParser_init_def andThen_def RecordParser.extend_def
      IHexParser.fields_def IHexParser.defs RecordParser.defs IHexParser_parse_def data_line_1000
      RecordParser_parse_def first_data_record store_segment_def parsed_def segment_of_def)

lemma create_line_extended_0: "IHexBuilder_create_line 4 0 [0, 0] = Inr '':020000040000FA''"
  by code_simp

lemma create_line_eof: "IHexBuilder_create_line 1 0 [] = Inr '':00000001FF''"
  by code_simp

lemma create_line_1010:
  "IHexBuilder_create_line 0 0x1010 [0, 1, 2, 3, 4, 5, 6, 7, 8, 9, 10, 11, 12, 13, 14, 15]
   = Inr '':10101000000102030405060708090A0B0C0D0E0F58''"
  by code_simp

lemma create_line_1000:
  "IHexBuilder_create_line 0 0x1000 [16, 17, 18, 19, 20, 21, 22, 23, 24, 25, 26, 27, 28, 29, 30, 31]
   = Inr '':10100000101112131415161718191A1B1C1D1E1F68''"
  by code_simp

lemma chunks16_16:
  "length bs = 16 \<Longrightarrow> chunks16 bs = [bs]"
  by (simp add: chunks16_def)

text \<open>
  Claim C5 against the code: the first input file holds 16 bytes at 0x1010, the second
  16 bytes at 0x1000. The intervals [0x1010, 0x1020) and [0x1000, 0x1010) only touch, and
  the driver refuses the second segment with "Segment override". With the two files in the
  other order it accepts both and writes the merged image.
\<close>

theorem adjacent_segments_refused:
  "mergehex_main False
     [['':10101000000102030405060708090A0B0C0D0E0F58''],
      ['':10100000101112131415161718191A1B1C1D1E1F68'']]
   = Inl RuntimeError_segment_override \<and>
   mergehex_main False
     [['':10100000101112131415161718191A1B1C1D1E1F68''],
      ['':10101000000102030405060708090A0B0C0D0E0F58'']]
   = Inr ['':020000040000FA'', '':10100000101112131415161718191A1B1C1D1E1F68'',
          '':020000040000FA'', '':10101000000102030405060708090A0B0C0D0E0F58'',
          '':00000001FF'']"
proof -
  have loop1: "main_loop False (None, [])
      [Inr (parsed None [segment_of 0x1010 [0, 1, 2, 3, 4, 5, 6, 7, 8, 9, 10, 11, 12, 13, 14, 15]]),
       Inr (parsed None [segment_of 0x1000 [16, 17, 18, 19, 20, 21, 22, 23, 24, 25, 26, 27, 28, 29, 30, 31]])]
     = Inl RuntimeError_segment_override"
    by (simp add: parsed_def segment_of_def getexec_def get_data_segments_def merge_input_def
        andThen_def segment_override_def)
  have loop2: "main_loop False (None, [])
      [Inr (parsed None [segment_of 0x1000 [16, 17, 18, 19, 20, 21, 22, 23, 24, 25, 26, 27, 28, 29, 30, 31]]),
       Inr (parsed None [segment_of 0x1010 [0, 1, 2, 3, 4, 5, 6, 7, 8, 9, 10, 11, 12, 13, 14, 15]])]
     = Inr (None, [segment_of 0x1000 [16, 17, 18, 19, 20, 21, 22, 23, 24, 25, 26, 27, 28, 29, 30, 31],
                   segment_of 0x1010 [0, 1, 2, 3, 4, 5, 6, 7, 8, 9, 10, 11, 12, 13, 14, 15]])"
    by (simp add: parsed_def segment_of_def getexec_def get_data_segments_def merge_input_def
        andThen_def segment_override_def)
  have build: "IHexBuilder_build
      [segment_of 0x1000 [16, 17, 18, 19, 20, 21, 22, 23, 24, 25, 26, 27, 28, 29, 30, 31],
       segment_of 0x1010 [0, 1, 2, 3, 4, 5, 6, 7, 8, 9, 10, 11, 12, 13, 14, 15]] None None 0
     = Inr ['':020000040000FA'', '':10100000101112131415161718191A1B1C1D1E1F68'',
            '':020000040000FA'', '':10101000000102030405060708090A0B0C0D0E0F58'',
            '':00000001FF'']"
    by (simp add: IHexBuilder_build_def RecordBuilder_build_def IHexBuilder_create_data_def
        segment_of_def data_def BytesIO_getvalue_def chunks16_16 pack_H_def andThen_def
        create_line_extended_0 create_line_eof create_line_1010 create_line_1000)
  show ?thesis
    using parse_1010 parse_1000 loop1 loop2 build
    by (simp add: mergehex_main_def andThen_def)
qed

section \<open>Evaluating both Intel HEX parsers on start-address records\<close>

lemmas ihex_line_eval =
  IHexParser_line_def strip_def isspace_def slice_def slice_from_def slice_to_def
  clamp_index_def py_int_def Py_ISSPACE_def is_digit_def digit_value_def unhexlify_def
  andThen_def Let_def

lemmas ihex_fast_eval =
  IHexFastParser_record_def slice_def slice_from_def slice_to_def clamp_index_def
  unhexlify_def is_digit_def digit_value_def andThen_def Let_def

lemma line_start_linear:
  "IHexParser_line p oa '':0400000508000000EF'' = Inl (IHexError_unsupported 5)"
  by (simp add: ihex_line_eval)

lemma line_eof:
  assumes "min_addr p \<le> 0" and "0 \<le> max_addr p" and "offset p \<le> 0"
  shows "IHexParser_line p oa '':00000001FF'' = Inr (Some (EOF, 0, []), oa)"
  using assms by (simp add: ihex_line_eval verify_address_def)

lemma line_start_segment_10000:
  assumes "verify p" and "max_addr p < 0x10000"
  shows "IHexParser_line p oa '':0400000310000000E9'' = Inl RecordError_out_of_range"
  using assms by (simp add: ihex_line_eval verify_address_def)

lemma fast_start_linear:
  assumes "min_addr p \<le> 0" and "0 \<le> max_addr p" and "offset p \<le> 0"
  shows "IHexFastParser_record p '':0400000508000000EF'' = Inr p"
  using assms by (simp add: ihex_fast_eval verify_address_def)

lemma fast_eof:
  assumes "min_addr p \<le> 0" and "0 \<le> max_addr p" and "offset p \<le> 0"
  shows "IHexFastParser_record p '':00000001FF'' = Inr p"
  using assms by (simp add: ihex_fast_eval verify_address_def)

lemma fast_start_segment_10000:
  assumes "min_addr p \<le> 0" and "0 \<le> max_addr p" and "offset p \<le> 0"
  shows "IHexFastParser_record p '':0400000310000000E9'' = Inr (p\<lparr>exec_addr := Some 0x10000\<rparr>)"
  using assms by (simp add: ihex_fast_eval verify_address_def)

lemma match_start_linear: "HEXCRE_match '':0400000508000000EF''"
  by (simp add: HEXCRE_match_def is_digit_def digit_value_def)

lemma match_eof: "HEXCRE_match '':00000001FF''"
  by (simp add: HEXCRE_match_def is_digit_def digit_value_def)

lemma match_start_segment_10000: "HEXCRE_match '':0400000310000000E9''"
  by (simp add: HEXCRE_match_def is_digit_def digit_value_def)

lemmas init_eval =
  IHexParser_init_def RecordParser_init_def andThen_def RecordParser.extend_def
  IHexParser.fields_def IHexParser.defs RecordParser.defs

text \<open>
  Claim C7 against the code: the record \<^verbatim>\<open>:0400000508000000EF\<close> is a well-formed
  record of type 05 with the start linear address 0x08000000. \<^verbatim>\<open>IHexParser\<close> with the
  default options raises \<^verbatim>\<open>IHexError\<close> ("Unsupported IHEX record: 5") on it;
  \<^verbatim>\<open>IHexFastParser\<close> passes it over and ends with no execution address.
\<close>

theorem start_linear_address_not_parsed:
  "andThen (IHexParser_init ['':0400000508000000EF''] 0 0 0xffffffff 16 True) IHexParser_parse
     = Inl (IHexError_unsupported 5) \<and>
   andThen (IHexParser_init ['':0400000508000000EF''] 0 0 0xffffffff 16 True) IHexFastParser_parse
     = Inr (parsed None []) \<and>
   getexec (parsed None []) = None"
  by (simp add: init_eval IHexParser_parse_def IHexFastParser_parse_def line_start_linear
      match_start_linear fast_start_linear RecordParser_parse_def store_segment_def parsed_def
      getexec_def)

text \<open>
  Claim C3 against the code, on two well-formed inputs. With the default options and the
  input of a start linear address record and the end-of-file record, the line parser
  raises \<^verbatim>\<open>IHexError\<close> and the fast parser returns (no segment, no execution
  address). With \<open>max_addr = 0xFFFF\<close> and the input of a start segment address record for
  1000:0000 and the end-of-file record, the line parser checks the execution address
  0x10000 and raises \<^verbatim>\<open>RecordError\<close>, and the fast parser checks the record's address
  field 0 and returns with the execution address 0x10000.
\<close>

theorem fast_parser_differs:
  "andThen (IHexParser_init ['':0400000508000000EF'', '':00000001FF''] 0 0 0xffffffff 16 True)
     IHexParser_parse
     = Inl (IHexError_unsupported 5) \<and>
   andThen (IHexParser_init ['':0400000508000000EF'', '':00000001FF''] 0 0 0xffffffff 16 True)
     IHexFastParser_parse
     = Inr (parsed None []) \<and>
   andThen (IHexParser_init ['':0400000310000000E9'', '':00000001FF''] 0 0 0xffff 16 True)
     IHexParser_parse
     = Inl RecordError_out_of_range \<and>
   andThen (IHexParser_init ['':0400000310000000E9'', '':00000001FF''] 0 0 0xffff 16 True)
     IHexFastParser_parse
     = Inr ((parsed (Some 0x10000) [])\<lparr>max_addr := 0xffff\<rparr>)"
  by (simp add: init_eval IHexParser_parse_def IHexFastParser_parse_def line_start_linear
      line_start_segment_10000 match_start_linear match_eof match_start_segment_10000
      fast_start_linear fast_eof fast_start_segment_10000 RecordParser_parse_def
      store_segment_def parsed_def)

section \<open>Evaluating the address check of the parsers\<close>

lemma fast_data_1000:
  assumes "seg p = None" and "offset p = 0" and "offset_addr p = 0"
  shows "IHexFastParser_record p '':10100000101112131415161718191A1B1C1D1E1F68''
     = Inr (p\<lparr>seg := Some (segment_of 0x1000
              [16, 17, 18, 19, 20, 21, 22, 23, 24, 25, 26, 27, 28, 29, 30, 31])\<rparr>)"
  using assms
    fresh_write [of "0x1000" "[16, 17, 18, 19, 20, 21, 22, 23, 24, 25, 26, 27, 28, 29, 30, 31]"]
  by (simp add: ihex_fast_eval RecordSegment_write_def segment_of_def)

lemma match_data_1000: "HEXCRE_match '':10100000101112131415161718191A1B1C1D1E1F68''"
  by (simp add: HEXCRE_match_def is_digit_def digit_value_def)

lemma srec_line_1000:
  assumes "verify p" and "0x1000 < min_addr p"
  shows "SRecParser_line p ''S1131000101112131415161718191A1B1C1D1E1F64''
     = Inl RecordError_out_of_range"
  using assms
  by (simp add: SRecParser_line_def strip_def isspace_def slice_def slice_from_def slice_to_def
      clamp_index_def py_int_def Py_ISSPACE_def is_digit_def digit_value_def unhexlify_def
      andThen_def Let_def verify_address_def)

lemma titxt_1000:
  assumes "0x1000 < min_addr p"
  shows "TItxtParser_get_next_chunk p None [''@1000'', ''10'', ''q'']
     = (([], Some RecordError_out_of_range), [''q''])"
  using assms
  by (simp add: strip_def isspace_def slice_from_def clamp_index_def py_int_def Py_ISSPACE_def
      is_digit_def digit_value_def unhexlify_def Let_def verify_address_def)

text \<open>
  Claim C2 against the code: with \<open>min_addr = 0x2000\<close>, \<open>max_addr = 0x2FFF\<close> and
  checksum verification, a DATA record of 16 bytes at 0x1000 is out of range.
  \<^verbatim>\<open>SRecParser\<close> and \<^verbatim>\<open>TItxtParser\<close> raise \<^verbatim>\<open>RecordError\<close> ("Address out of
  range") on it. \<^verbatim>\<open>IHexParser\<close> and \<^verbatim>\<open>IHexFastParser\<close> accept it and return the
  segment at 0x1000: their guard \<^verbatim>\<open>if self._verify and record\<close> is false for the
  record type 0, which is DATA in Intel HEX.
\<close>

theorem ihex_data_address_unchecked:
  "andThen (IHexParser_init ['':10100000101112131415161718191A1B1C1D1E1F68''] 0 0x2000 0x2fff 16 True)
     IHexParser_parse
     = Inr ((parsed None [segment_of 0x1000
               [16, 17, 18, 19, 20, 21, 22, 23, 24, 25, 26, 27, 28, 29, 30, 31]])
            \<lparr>min_addr := 0x2000, max_addr := 0x2fff\<rparr>) \<and>
   andThen (IHexParser_init ['':10100000101112131415161718191A1B1C1D1E1F68''] 0 0x2000 0x2fff 16 True)
     IHexFastParser_parse
     = Inr ((parsed None [segment_of 0x1000
               [16, 17, 18, 19, 20, 21, 22, 23, 24, 25, 26, 27, 28, 29, 30, 31]])
            \<lparr>min_addr := 0x2000, max_addr := 0x2fff\<rparr>) \<and>
   andThen (RecordParser_init [''S1131000101112131415161718191A1B1C1D1E1F64''] 0 0x2000 0x2fff 16 True)
     SRecParser_parse
     = Inl RecordError_out_of_range \<and>
   andThen (RecordParser_init [''@1000'', ''10'', ''q''] 0 0x2000 0x2fff 16 True)
     TItxtParser_parse
     = Inl RecordError_out_of_range"
  by (simp add: init_eval IHexParser_parse_def IHexFastParser_parse_def SRecParser_parse_def
      TItxtParser_parse_def data_line_1000 match_data_1000 fast_data_1000 srec_line_1000
      titxt_1000 RecordParser_parse_def first_data_record store_segment_def parsed_def
      segment_of_def del: TItxtParser_get_next_chunk.simps)

section \<open>Evaluating \<^verbatim>\<open>SRecParser\<close> on the end-to-end example\<close>

lemmas srec_line_eval =
  SRecParser_line_def strip_def isspace_def slice_def slice_from_def slice_to_def
  clamp_index_def py_int_def Py_ISSPACE_def is_digit_def digit_value_def unhexlify_def
  andThen_def Let_def verify_address_def

lemma srec_example_data_line_verified:
  assumes "verify p"
  shows "SRecParser_line p ''S1130000214601360121470136007EFE09D2190140'' = Inl SRecError_checksum"
  using assms by (simp add: srec_line_eval)

lemma srec_example_data_line_unverified:
  assumes "\<not> verify p"
  shows "SRecParser_line p ''S1130000214601360121470136007EFE09D2190140''
     = Inr (Some (DATA, 0, [0x21, 0x46, 0x01, 0x36, 0x01, 0x21, 0x47, 0x01,
                            0x36, 0x00, 0x7E, 0xFE, 0x09, 0xD2, 0x19, 0x01]))"
  using assms by (simp add: srec_line_eval)

lemma srec_example_data_line_3D:
  assumes "min_addr p \<le> 0" and "0 \<le> max_addr p" and "offset p \<le> 0"
  shows "SRecParser_line p ''S1130000214601360121470136007EFE09D219013D''
     = Inr (Some (DATA, 0, [0x21, 0x46, 0x01, 0x36, 0x01, 0x21, 0x47, 0x01,
                            0x36, 0x00, 0x7E, 0xFE, 0x09, 0xD2, 0x19, 0x01]))"
  using assms by (simp add: srec_line_eval)

lemma srec_example_exec_line:
  assumes "min_addr p \<le> 0" and "0 \<le> max_addr p" and "offset p \<le> 0"
  shows "SRecParser_line p ''S9030000FC'' = Inr (Some (EXECUTE, 0, []))"
  using assms by (simp add: srec_line_eval)

lemma execute_record:
  "parse_record p (EXECUTE, address, val) = Inr (p\<lparr>exec_addr := Some address\<rparr>)"
  by (simp add: parse_record_def)

text \<open>
  Claim C4, as stated, fails: the first line's checksum field is 0x40, and the one's
  complement of the sum of its bytes is 0x3D, so \<^verbatim>\<open>SRecParser\<close> with the default
  options (which verify checksums) raises \<^verbatim>\<open>SRecError\<close> ("Invalid checksum") and
  yields no segment.
\<close>

theorem srec_example_counterexample:
  "andThen (RecordParser_init [''S1130000214601360121470136007EFE09D2190140'', ''S9030000FC'']
              0 0 0xffffffff 16 True)
     SRecParser_parse
   = Inl SRecError_checksum"
  by (simp add: RecordParser_init_def andThen_def SRecParser_parse_def RecordParser_parse_def
      srec_example_data_line_verified)

text \<open>
  Claim C4, amended: parsed without checksum verification (the other options at their
  defaults), the two lines give exactly one segment at 0x0000 that holds the 16 payload
  bytes, and the execution address 0x0000; so do the two lines with the first one's
  checksum set right (3D), parsed with the default options.
\<close>

theorem srec_example_parsed:
  "andThen (RecordParser_init [''S1130000214601360121470136007EFE09D2190140'', ''S9030000FC'']
              0 0 0xffffffff 16 False)
     SRecParser_parse
   = Inr \<lparr>src = [], offset = 0, min_addr = 0, max_addr = 0xffffffff, exec_addr = Some 0,
          segments = [segment_of 0 [0x21, 0x46, 0x01, 0x36, 0x01, 0x21, 0x47, 0x01,
                                    0x36, 0x00, 0x7E, 0xFE, 0x09, 0xD2, 0x19, 0x01]],
          info = None, gap = 16, seg = None, verify = False\<rparr> \<and>
   andThen (RecordParser_init [''S1130000214601360121470136007EFE09D219013D'', ''S9030000FC'']
              0 0 0xffffffff 16 True)
     SRecParser_parse
   = Inr \<lparr>src = [], offset = 0, min_addr = 0, max_addr = 0xffffffff, exec_addr = Some 0,
          segments = [segment_of 0 [0x21, 0x46, 0x01, 0x36, 0x01, 0x21, 0x47, 0x01,
                                    0x36, 0x00, 0x7E, 0xFE, 0x09, 0xD2, 0x19, 0x01]],
          info = None, gap = 16, seg = None, verify = True\<rparr>"
  by (simp add: RecordParser_init_def andThen_def SRecParser_parse_def RecordParser_parse_def
      srec_example_data_line_unverified srec_example_data_line_3D srec_example_exec_line
      first_data_record execute_record store_segment_def segment_of_def)

section \<open>Evaluating the round trip through the builders\<close>

lemma srec_build_two_bytes: "SRecBuilder_build [segment_of 0 [1, 2]] None None 0 = Inl TypeError"
  by (simp add: SRecBuilder_build_def RecordBuilder_build_def SRecBuilder_create_data_def
      segment_of_def data_def BytesIO_getvalue_def chunks16_def str_add_bytes_def andThen_def
      Let_def)

lemma titxt_build_two_bytes:
  "TItxtBuilder_build [segment_of 0 [1, 2]] None None 0 = Inr [''@0000'', ''01 02'', ''q'']"
  by code_simp

lemma ihex_build_two_bytes:
  "IHexBuilder_build [segment_of 0 [1, 2]] None None 0
   = Inr ['':020000040000FA'', '':020000000102FB'', '':00000001FF'']"
  by code_simp

lemma titxt_parse_two_bytes:
  "TItxtParser_get_next_chunk p None [''@0000'', ''01 02'', ''q'']
     = (([], Some binascii_Error), [''q''])"
  by (simp add: strip_def isspace_def slice_from_def clamp_index_def py_int_def Py_ISSPACE_def
      is_digit_def digit_value_def unhexlify_def Let_def)

lemma eof_record: "parse_record p (EOF, address, val) = Inr p"
  by (simp add: parse_record_def)

lemma line_extended_0:
  "IHexParser_line p oa '':020000040000FA'' = Inr (None, 0)"
  by (simp add: ihex_line_eval)

lemma line_two_bytes:
  "IHexParser_line p oa '':020000000102FB'' = Inr (Some (DATA, oa, [1, 2]), oa)"
  by (simp add: ihex_line_eval)

text \<open>
  Claim C1 against the code, on the segment list of one segment that holds the bytes 1, 2 at
  address 0, with no execution address and the default options. \<^verbatim>\<open>SRecBuilder.build\<close>
  raises \<^verbatim>\<open>TypeError\<close> at its first data line. \<^verbatim>\<open>TItxtBuilder.build\<close> writes
  the bytes of a line with blanks between them, and \<^verbatim>\<open>TItxtParser.parse\<close> raises
  \<^verbatim>\<open>binascii.Error\<close> on that line. Only the Intel HEX round trip gives the segment
  back.
\<close>

theorem round_trip_fails:
  "SRecBuilder_build [segment_of 0 [1, 2]] None None 0 = Inl TypeError \<and>
   andThen (TItxtBuilder_build [segment_of 0 [1, 2]] None None 0)
     (\<lambda>lines. andThen (RecordParser_init lines 0 0 0xffffffff 16 True) TItxtParser_parse)
     = Inl binascii_Error \<and>
   andThen (IHexBuilder_build [segment_of 0 [1, 2]] None None 0)
     (\<lambda>lines. andThen (IHexParser_init lines 0 0 0xffffffff 16 True) IHexParser_parse)
     = Inr (parsed None [segment_of 0 [1, 2]])"
proof -
  have titxt:
    "andThen (RecordParser_init [''@0000'', ''01 02'', ''q''] 0 0 0xffffffff 16 True) TItxtParser_parse
     = Inl binascii_Error"
    by (simp add: init_eval TItxtParser_parse_def titxt_parse_two_bytes RecordParser_parse_def
        del: TItxtParser_get_next_chunk.simps)
  have ihex:
    "andThen (IHexParser_init ['':020000040000FA'', '':020000000102FB'', '':00000001FF'']
                0 0 0xffffffff 16 True) IHexParser_parse
     = Inr (parsed None [segment_of 0 [1, 2]])"
    by (simp add: init_eval IHexParser_parse_def line_extended_0 line_two_bytes line_eof
        RecordParser_parse_def first_data_record eof_record store_segment_def parsed_def
        segment_of_def)
  have step: "andThen (Inr x) f = f x" for x :: "string list" and f :: "string list \<Rightarrow> error + 'b"
    by (simp add: andThen_def)
  show ?thesis
    by (simp only: srec_build_two_bytes titxt_build_two_bytes ihex_build_two_bytes step titxt ihex
        simp_thms)
qed

end
